theory Spec2Isabelle
  imports Complex_Main "HOL-Library.Word"
begin

section \<open>Numbers and text of the C++ library\<close>

text \<open>
  A C++ \<open>double\<close> is modelled as a real number: arithmetic is exact, without rounding
  and without overflow. The value a spin control holds is finite, so it is a \<open>real\<close>. Any
  other \<open>double\<close> can stop being a finite number: \<open>std::stod\<close> reads an infinity or a NaN
  from text, and IEEE division by zero gives one. In this program every sum, difference,
  product and quotient that has such an operand is non-finite again (no divisor can be an
  infinity, and nothing is compared with such a value). So an amount that is computed is a
  \<open>double\<close>: \<open>Some x\<close> for the finite number \<open>x\<close>, \<open>None\<close> for "not a finite number", an
  infinity or a NaN.
  A C++ \<open>int\<close> is a 32-bit word read as two's complement (\<open>sint\<close>); \<open>size_t\<close> indices are naturals.
\<close>

type_synonym double = "real option"
type_synonym cint = "32 word"

definition dadd :: "double \<Rightarrow> double \<Rightarrow> double" where
  "dadd a b = (case a of None \<Rightarrow> None | Some x \<Rightarrow> (case b of None \<Rightarrow> None | Some y \<Rightarrow> Some (x + y)))"

definition dsub :: "double \<Rightarrow> double \<Rightarrow> double" where
  "dsub a b = (case a of None \<Rightarrow> None | Some x \<Rightarrow> (case b of None \<Rightarrow> None | Some y \<Rightarrow> Some (x - y)))"

definition dmul :: "double \<Rightarrow> double \<Rightarrow> double" where
  "dmul a b = (case a of None \<Rightarrow> None | Some x \<Rightarrow> (case b of None \<Rightarrow> None | Some y \<Rightarrow> Some (x * y)))"

text \<open>Division: a zero divisor gives a non-finite result, whatever the dividend.\<close>

definition ddiv :: "double \<Rightarrow> double \<Rightarrow> double" where
  "ddiv a b = (case a of None \<Rightarrow> None | Some x \<Rightarrow>
     (case b of None \<Rightarrow> None | Some y \<Rightarrow> if y = 0 then None else Some (x / y)))"

text \<open>The exceptions of \<open>std::stoi\<close> and \<open>std::stod\<close>.\<close>

datatype error = InvalidArgument | OutOfRange

definition isdigit :: "char \<Rightarrow> bool" where
  "isdigit c = (48 \<le> (of_char c :: nat) \<and> (of_char c :: nat) \<le> 57)"

definition isspace :: "char \<Rightarrow> bool" where
  "isspace c = ((of_char c :: nat) = 32 \<or> (9 \<le> (of_char c :: nat) \<and> (of_char c :: nat) \<le> 13))"

definition digit_char :: "nat \<Rightarrow> char" where
  "digit_char d = char_of (48 + d)"

definition digit_val :: "char \<Rightarrow> nat" where
  "digit_val c = of_char c - 48"

text \<open>The decimal digits of a natural number, most significant first.\<close>

fun digits :: "nat \<Rightarrow> string" where
  "digits n = (if n < 10 then [digit_char n] else digits (n div 10) @ [digit_char (n mod 10)])"

declare digits.simps [simp del]

text \<open>The number a run of decimal digits denotes.\<close>

definition digits_value :: "string \<Rightarrow> nat" where
  "digits_value ds = foldl (\<lambda>a c. 10 * a + digit_val c) 0 ds"

text \<open>\<open>std::to_string(int)\<close> and \<open>std::to_string(size_t)\<close>: the format \<open>%d\<close>.\<close>

definition to_string_nat :: "nat \<Rightarrow> string" where
  "to_string_nat n = digits n"

definition to_string_int :: "cint \<Rightarrow> string" where
  "to_string_int i = (if sint i < 0 then CHR ''-'' # digits (nat (- sint i)) else digits (nat (sint i)))"

text \<open>
  \<open>std::to_string(double)\<close>: the format \<open>%f\<close>, six digits after the point, the
  exact value rounded to the nearest multiple of \<open>10\<^sup>-\<^sup>6\<close> (a tie goes to the even digit).
\<close>

definition round_half_even :: "real \<Rightarrow> int" where
  "round_half_even x =
     (let f = \<lfloor>x\<rfloor>; d = x - of_int f
      in if d < 1 / 2 then f else if 1 / 2 < d then f + 1 else if even f then f else f + 1)"

definition pad6 :: "nat \<Rightarrow> string" where
  "pad6 k = replicate (6 - length (digits k)) (CHR ''0'') @ digits k"

definition to_string_double :: "real \<Rightarrow> string" where
  "to_string_double x =
     (let m = nat (round_half_even (\<bar>x\<bar> * 1000000))
      in (if x < 0 then ''-'' else []) @ digits (m div 1000000) @ ''.'' @ pad6 (m mod 1000000))"


text \<open>An optional sign in front of a number, as \<open>strtol\<close> and \<open>strtod\<close> read it.\<close>

fun read_sign :: "string \<Rightarrow> bool \<times> string" where
  "read_sign [] = (False, [])"
| "read_sign (c # r) =
     (if c = CHR ''-'' then (True, r) else if c = CHR ''+'' then (False, r) else (False, c # r))"

text \<open>
  \<open>std::stoi\<close> (base 10): leading white space is skipped, then an optional sign and the
  longest run of digits are read, and what follows is ignored. No digit at all raises
  \<open>std::invalid_argument\<close>, a value outside \<open>int\<close> raises \<open>std::out_of_range\<close>.
\<close>

definition stoi :: "string \<Rightarrow> error + cint" where
  "stoi s =
     (let (neg, u) = read_sign (dropWhile isspace s);
          ds = takeWhile isdigit u
      in if ds = [] then Inl InvalidArgument
         else let v = (if neg then - int (digits_value ds) else int (digits_value ds))
              in if v < - (2 ^ 31) \<or> 2 ^ 31 \<le> v then Inl OutOfRange else Inr (word_of_int v))"


definition dbl_overflow :: real where
  "dbl_overflow = 2 ^ 1024 - 2 ^ 970"

definition dbl_min :: real where
  "dbl_min = 1 / 2 ^ 1022"

definition subnormal_exact :: "real \<Rightarrow> bool" where
  "subnormal_exact v = (real_of_int \<lfloor>v * 2 ^ 1074\<rfloor> = v * 2 ^ 1074)"

text \<open>
  The range error of \<open>strtod\<close> (\<open>errno = ERANGE\<close>), on which \<open>std::stod\<close> raises
  \<open>std::out_of_range\<close>: the value overflows, or it underflows. For the underflow the C
  standard leaves the error to the implementation; as in glibc, it is raised for a
  non-zero value below \<open>dbl_min\<close> that is not a subnormal \<open>double\<close> exactly.
\<close>

definition range_error :: "real \<Rightarrow> bool" where
  "range_error v = (dbl_overflow \<le> \<bar>v\<bar> \<or> (v \<noteq> 0 \<and> \<bar>v\<bar> < dbl_min \<and> \<not> subnormal_exact v))"

definition isxdigit :: "char \<Rightarrow> bool" where
  "isxdigit c =
     (isdigit c \<or> (97 \<le> (of_char c :: nat) \<and> (of_char c :: nat) \<le> 102)
        \<or> (65 \<le> (of_char c :: nat) \<and> (of_char c :: nat) \<le> 70))"

definition xdigit_val :: "char \<Rightarrow> nat" where
  "xdigit_val c =
     (if isdigit c then digit_val c else if 97 \<le> (of_char c :: nat) then of_char c - 87 else of_char c - 55)"

text \<open>The number a run of hexadecimal digits denotes.\<close>

definition xdigits_value :: "string \<Rightarrow> nat" where
  "xdigits_value ds = foldl (\<lambda>a c. 16 * a + xdigit_val c) 0 ds"

text \<open>
  The exponent part of a number: the marker letter, small or capital (\<open>e\<close> for a decimal,
  \<open>p\<close> for a hexadecimal number), an optional sign and at least one decimal digit.
  Without a digit there is no exponent part.
\<close>

definition read_exponent :: "char \<Rightarrow> char \<Rightarrow> string \<Rightarrow> int" where
  "read_exponent small capital s =
     (case s of [] \<Rightarrow> 0
      | c # r \<Rightarrow>
          if c = small \<or> c = capital then
            (let (neg, u) = read_sign r; ds = takeWhile isdigit u
             in if ds = [] then 0
                else if neg then - int (digits_value ds) else int (digits_value ds))
          else 0)"

text \<open>
  A decimal number: digits with an optional point, at least one digit, and an optional
  exponent of ten. The result is its value, or nothing when no digit stands there.
\<close>

definition read_decimal :: "string \<Rightarrow> real option" where
  "read_decimal u =
     (let ip = takeWhile isdigit u;
          r1 = dropWhile isdigit u;
          (fp, r2) = (case r1 of [] \<Rightarrow> ([], r1)
                      | c # r \<Rightarrow> if c = CHR ''.'' then (takeWhile isdigit r, dropWhile isdigit r)
                                 else ([], r1))
      in if ip = [] \<and> fp = [] then None
         else Some ((real (digits_value ip) + real (digits_value fp) / 10 ^ length fp)
                      * 10 powi read_exponent (CHR ''e'') (CHR ''E'') r2))"

text \<open>
  A hexadecimal number, after its prefix \<open>0x\<close>: hexadecimal digits with an optional
  point, at least one digit, and an optional exponent of two.
\<close>

definition read_hexadecimal :: "string \<Rightarrow> real option" where
  "read_hexadecimal u =
     (let ip = takeWhile isxdigit u;
          r1 = dropWhile isxdigit u;
          (fp, r2) = (case r1 of [] \<Rightarrow> ([], r1)
                      | c # r \<Rightarrow> if c = CHR ''.'' then (takeWhile isxdigit r, dropWhile isxdigit r)
                                 else ([], r1))
      in if ip = [] \<and> fp = [] then None
         else Some ((real (xdigits_value ip) + real (xdigits_value fp) / 16 ^ length fp)
                      * 2 powi read_exponent (CHR ''p'') (CHR ''P'') r2))"

text \<open>
  The magnitude \<open>strtod\<close> reads: a hexadecimal number when \<open>0x\<close> or \<open>0X\<close> and a
  hexadecimal digit stand there, else a decimal number (for \<open>0x\<close> with no digit after it,
  the \<open>0\<close> alone).
\<close>

definition read_number :: "string \<Rightarrow> real option" where
  "read_number u =
     (case u of
        c0 # c1 # r \<Rightarrow>
          if c0 = CHR ''0'' \<and> (c1 = CHR ''x'' \<or> c1 = CHR ''X'') then
            (case read_hexadecimal r of Some v \<Rightarrow> Some v | None \<Rightarrow> read_decimal u)
          else read_decimal u
      | _ \<Rightarrow> read_decimal u)"

text \<open>
  The spellings of an infinity (\<open>inf\<close>, \<open>infinity\<close>) and of a NaN (\<open>nan\<close>), in small or
  capital letters: three letters decide.
\<close>

definition non_finite_text :: "string \<Rightarrow> bool" where
  "non_finite_text u =
     (case u of
        c1 # c2 # c3 # r \<Rightarrow>
          ((c1 = CHR ''i'' \<or> c1 = CHR ''I'') \<and> (c2 = CHR ''n'' \<or> c2 = CHR ''N'')
             \<and> (c3 = CHR ''f'' \<or> c3 = CHR ''F''))
          \<or> ((c1 = CHR ''n'' \<or> c1 = CHR ''N'') \<and> (c2 = CHR ''a'' \<or> c2 = CHR ''A'')
                \<and> (c3 = CHR ''n'' \<or> c3 = CHR ''N''))
      | _ \<Rightarrow> False)"

text \<open>
  \<open>std::stod\<close>, which is \<open>strtod\<close> (in the C locale) with its failures turned into
  exceptions: leading white space is skipped, then an optional sign is read, and then an
  infinity or a NaN, or a hexadecimal or decimal number; what follows is ignored. The value is non-finite for an
  infinity or a NaN. When no number stands there \<open>std::invalid_argument\<close> is raised, on
  a range error \<open>std::out_of_range\<close>.
\<close>

definition stod :: "string \<Rightarrow> error + double" where
  "stod s =
     (let (neg, u) = read_sign (dropWhile isspace s)
      in if non_finite_text u then Inr None
         else (case read_number u of
                 None \<Rightarrow> Inl InvalidArgument
               | Some m \<Rightarrow>
                   if range_error m then Inl OutOfRange
                   else Inr (Some (if neg then - m else m))))"

section \<open>The data of the dialog\<close>

text \<open>\<open>struct FilamentData\<close> of \<open>InvoiceDialog.hpp\<close>.\<close>

record FilamentData =
  extruder_id :: nat
  name :: string
  color :: string
  weight_g :: double
  cost_per_kg :: double
  calculated_cost :: double

text \<open>
  Modelled from the spec: \<open>PrintStatistics\<close> (\<open>libslic3r/Print.hpp\<close> is not among the
  sources). The dialog reads three members: the per-extruder usage, a \<open>std::map\<close> whose
  entries are listed here in the order the loop visits them (ascending extruder id), the
  total weight and the estimated print time as text.
\<close>

record PrintStatistics =
  filament_stats :: "(nat \<times> real) list"
  total_weight :: real
  estimated_normal_print_time :: string

text \<open>
  Modelled from the spec: the preset provider (\<open>libslic3r/PresetBundle.hpp\<close> is not among
  the sources). \<open>project_config.option(key)\<close> yields no option or an option of one of the
  kinds that \<open>get_val\<close> probes with \<open>dynamic_cast\<close>.
\<close>

datatype ConfigOption =
    ConfigOptionStrings "string list"
  | ConfigOptionFloats "real list"
  | ConfigOptionInts "cint list"
  | ConfigOptionOther

record PresetBundle =
  filament_presets :: "string list"
  project_config :: "string \<Rightarrow> ConfigOption option"

text \<open>
  Modelled from the spec: the persistent store \<open>AppConfig\<close> (\<open>libslic3r/AppConfig.hpp\<close> is
  not among the sources), a string-keyed map; \<open>get\<close> of an absent key is the empty string,
  \<open>set\<close> stores a value, and \<open>save\<close> flushes the map without changing it.
\<close>

type_synonym AppConfig = "string \<rightharpoonup> string"

definition app_get :: "AppConfig \<Rightarrow> string \<Rightarrow> string" where
  "app_get config key = (case config key of None \<Rightarrow> [] | Some v \<Rightarrow> v)"

definition app_set :: "AppConfig \<Rightarrow> string \<Rightarrow> string \<Rightarrow> AppConfig" where
  "app_set config key val = config(key \<mapsto> val)"

text \<open>
  The members of \<open>class InvoiceDialog\<close> that the engine reads and writes. A text control
  is the string it holds and a spin control the number it holds (\<open>SetValue\<close> with a number
  stores it, \<open>GetValue\<close> reads it); the combo box is the list of its entries. The labels,
  which only display formatted copies of the results, are left out.
\<close>

record InvoiceDialog =
  m_stats :: "PrintStatistics option"
  m_filament_data :: "FilamentData list"
  m_txt_business_name :: string
  m_txt_customer_name :: string
  m_txt_customer_email :: string
  m_txt_customer_phone :: string
  m_txt_job_name :: string
  m_txt_job_description :: string
  m_combo_job_profiles :: "string list"
  m_parts_per_plate :: cint
  m_num_plates :: cint
  m_failure_rate :: real
  m_labor_rate :: real
  m_prep_time :: real
  m_setup_time :: real
  m_finishing_per_part :: real
  m_finishing_per_plate :: real
  m_printer_cost :: real
  m_printer_lifespan :: real
  m_maintenance_cost :: real
  m_power_watts :: real
  m_electricity_cost :: real
  m_bed_cost :: real
  m_bed_lifespan :: real
  m_nozzle_cost :: real
  m_nozzle_lifespan_kg :: real
  m_solvent_cost :: real
  m_solving_time :: real
  m_tank_power :: real
  m_finishing_materials :: real
  m_markup_percent :: real
  m_calc_material_cost :: double
  m_calc_labor_cost :: double
  m_calc_machine_cost :: double
  m_calc_tooling_cost :: double
  m_calc_postprocess_cost :: double
  m_calc_subtotal :: double
  m_calc_failure_adjustment :: double
  m_calc_cost_per_part :: double
  m_calc_markup_amount :: double
  m_calc_final_price :: double
  m_calc_total_job_cost :: double
  m_calc_print_time_hours :: double

text \<open>
  What wxWidgets contributes, taken as given: whether the output stream of a path opens
  (\<open>wxFFileOutputStream::IsOk\<close>), the text the stream writes for a \<open>double\<close>, the text of
  \<open>wxString::Format("%.2f g", w)\<close>, today's date as \<open>wxDateTime::Now().FormatDate()\<close>
  prints it, and what \<open>wxSpinCtrlDouble::SetValue\<close> does with an infinity or a NaN:
  \<open>set_value_non_finite wx key v d\<close> is the number that the control which
  \<open>load_job_profile\<close> sets from \<open>key\<close> holds after that call, made in the dialog \<open>d\<close> with
  the non-finite \<open>double\<close> that \<open>std::stod\<close> reads from the text \<open>v\<close>.
\<close>

record wx_env =
  stream_is_ok :: "string \<Rightarrow> bool"
  write_double :: "double \<Rightarrow> string"
  format_weight :: "double \<Rightarrow> string"
  format_date :: string
  set_value_non_finite :: "string \<Rightarrow> string \<Rightarrow> InvoiceDialog \<Rightarrow> real"

section \<open>The print time\<close>

text \<open>
  \<open>std::regex_search\<close> with the pattern \<open>(\d+)\s*u\<close> for a unit letter \<open>u\<close>: the leftmost
  position where a run of digits, then white space, then the letter stand; the result is
  the first group, the run of digits (from a digit, the run must be taken whole: a shorter
  one is followed by a digit, which is neither white space nor the letter).
\<close>

fun regex_search_unit :: "char \<Rightarrow> string \<Rightarrow> string option" where
  "regex_search_unit u [] = None"
| "regex_search_unit u (c # s) =
     (if isdigit c \<and> (case dropWhile isspace (dropWhile isdigit s) of [] \<Rightarrow> False | x # _ \<Rightarrow> x = u)
      then Some (c # takeWhile isdigit s)
      else regex_search_unit u s)"

text \<open>
  One statement of \<open>parse_time_to_hours\<close>: \<open>if (std::regex_search(...)) hours += ...\<close>,
  where \<open>scaled\<close> is what the statement makes of \<open>std::stod(match[1])\<close>. An exception of
  \<open>std::stod\<close> leaves the statement.
\<close>

definition add_match :: "string option \<Rightarrow> (double \<Rightarrow> double) \<Rightarrow> double \<Rightarrow> error + double" where
  "add_match match scaled hours =
     (case match of
        None \<Rightarrow> Inr hours
      | Some m \<Rightarrow> (case stod m of Inl e \<Rightarrow> Inl e | Inr v \<Rightarrow> Inr (dadd hours (scaled v))))"

text \<open>\<open>InvoiceDialog::parse_time_to_hours\<close>: the hours, or the exception that leaves it.\<close>

definition parse_time_to_hours :: "string \<Rightarrow> error + double" where
  "parse_time_to_hours time_str =
     (case add_match (regex_search_unit (CHR ''d'') time_str) (\<lambda>v. dmul v (Some 24)) (Some 0) of
        Inl e \<Rightarrow> Inl e
      | Inr hours \<Rightarrow>
     (case add_match (regex_search_unit (CHR ''h'') time_str) (\<lambda>v. v) hours of
        Inl e \<Rightarrow> Inl e
      | Inr hours \<Rightarrow>
     (case add_match (regex_search_unit (CHR ''m'') time_str) (\<lambda>v. ddiv v (Some 60)) hours of
        Inl e \<Rightarrow> Inl e
      | Inr hours \<Rightarrow>
        add_match (regex_search_unit (CHR ''s'') time_str) (\<lambda>v. ddiv v (Some 3600)) hours)))"

section \<open>The filament usage resolver\<close>

text \<open>The lambda \<open>get_val\<close> of \<open>populate_filament_data\<close>.\<close>

definition get_val :: "PresetBundle \<Rightarrow> string \<Rightarrow> nat \<Rightarrow> string" where
  "get_val presets key idx =
     (case project_config presets key of
        None \<Rightarrow> []
      | Some (ConfigOptionStrings vs) \<Rightarrow> if idx < length vs then vs ! idx else []
      | Some (ConfigOptionFloats vs) \<Rightarrow> if idx < length vs then to_string_double (vs ! idx) else []
      | Some (ConfigOptionInts vs) \<Rightarrow> if idx < length vs then to_string_int (vs ! idx) else []
      | Some ConfigOptionOther \<Rightarrow> [])"

text \<open>
  A preset number: the default when the text is empty, else \<open>std::stod\<close> of the text,
  whose exception nothing in the function catches. The numbers of an entry are \<open>double\<close>
  variables, computed with as such.
\<close>

definition preset_number :: "PresetBundle \<Rightarrow> string \<Rightarrow> nat \<Rightarrow> real \<Rightarrow> error + double" where
  "preset_number presets key idx def =
     (let str = get_val presets key idx in if str \<noteq> [] then stod str else Inr (Some def))"

text \<open>The body of the loop over \<open>m_stats->filament_stats\<close>, for one entry of the map.\<close>

definition filament_entry :: "PrintStatistics \<Rightarrow> PresetBundle \<Rightarrow> nat \<times> real \<Rightarrow> error + FilamentData" where
  "filament_entry stats presets entry =
     (let id = fst entry; usage = snd entry;
          filament_name =
            (if id < length (filament_presets presets) then filament_presets presets ! id
             else ''Filament '' @ to_string_nat (id + 1));
          col = get_val presets ''filament_colour'' id;
          colour = (if col \<noteq> [] then col else ''#808080'')
      in case preset_number presets ''filament_cost'' id 20 of
           Inl e \<Rightarrow> Inl e
         | Inr cost \<Rightarrow>
        (case preset_number presets ''filament_density'' id (124 / 100) of
           Inl e \<Rightarrow> Inl e
         | Inr density \<Rightarrow>
        (case preset_number presets ''filament_diameter'' id (175 / 100) of
           Inl e \<Rightarrow> Inl e
         | Inr diameter \<Rightarrow>
             (let radius = ddiv diameter (Some 2);
                  area = dmul (dmul (Some (314159265359 / 100000000000)) radius) radius;
                  volume_mm3 = dmul (Some usage) area;
                  w = ddiv (dmul volume_mm3 density) (Some 1000);
                  w = (if length (filament_stats stats) = 1 \<and> 0 < total_weight stats
                       then Some (total_weight stats) else w)
              in Inr \<lparr>extruder_id = id, name = filament_name, color = colour, weight_g = w,
                      cost_per_kg = cost, calculated_cost = dmul (ddiv w (Some 1000)) cost\<rparr>))))"

text \<open>The loop, with the \<open>m_filament_data\<close> built so far.\<close>

fun populate_loop ::
  "PrintStatistics \<Rightarrow> PresetBundle \<Rightarrow> (nat \<times> real) list \<Rightarrow> FilamentData list \<Rightarrow> error + FilamentData list" where
  "populate_loop stats presets [] acc = Inr acc"
| "populate_loop stats presets (entry # entries) acc =
     (case filament_entry stats presets entry of
        Inl e \<Rightarrow> Inl e
      | Inr data \<Rightarrow> populate_loop stats presets entries (acc @ [data]))"

text \<open>
  \<open>InvoiceDialog::populate_filament_data\<close>: the new \<open>m_filament_data\<close>, or the exception
  that leaves the function. The statistics and the preset bundle are pointers that may be
  null.
\<close>

definition populate_filament_data ::
  "PrintStatistics option \<Rightarrow> PresetBundle option \<Rightarrow> error + FilamentData list" where
  "populate_filament_data stats_ptr presets_ptr =
     (case stats_ptr of
        None \<Rightarrow> Inr []
      | Some stats \<Rightarrow>
        (case presets_ptr of
           None \<Rightarrow> Inr []
         | Some presets \<Rightarrow>
           (case populate_loop stats presets (filament_stats stats) [] of
              Inl e \<Rightarrow> Inl e
            | Inr fds \<Rightarrow>
                if fds = [] \<and> 0 < total_weight stats
                then Inr [\<lparr>extruder_id = 0, name = ''Default Filament'', color = ''#808080'',
                           weight_g = Some (total_weight stats), cost_per_kg = Some 20,
                           calculated_cost = dmul (ddiv (Some (total_weight stats)) (Some 1000)) (Some 20)\<rparr>]
                else Inr fds)))"

section \<open>The cost model\<close>

text \<open>
  \<open>InvoiceDialog::calculate_costs\<close>: the dialog after the call, or the exception that
  leaves it, which can only come from \<open>parse_time_to_hours\<close>, before any member is
  assigned. The local variables keep their names. What is computed from the controls
  alone is a number; an operation with an operand that may be non-finite is one of
  \<open>dadd\<close>, \<open>dsub\<close>, \<open>dmul\<close> and \<open>ddiv\<close>, and so are the five divisions whose divisor is
  not a literal and may be zero. The product \<open>total_parts\<close> of the two counts is a
  product of \<open>int\<close>, which wraps here where C++ leaves the overflow undefined.
\<close>

definition calculate_costs :: "InvoiceDialog \<Rightarrow> error + InvoiceDialog" where
  "calculate_costs d =
     (let total_material_cost =
            foldl (\<lambda>acc data. dadd acc (calculated_cost data)) (Some 0) (m_filament_data d)
      in case (case m_stats d of None \<Rightarrow> Inr (Some 0)
               | Some stats \<Rightarrow> parse_time_to_hours (estimated_normal_print_time stats)) of
           Inl e \<Rightarrow> Inl e
         | Inr print_time_hours \<Rightarrow>
     (let parts_per_plate = m_parts_per_plate d;
          num_plates = m_num_plates d;
          failure_rate = m_failure_rate d / 100;
          labor_rate = m_labor_rate d;
          prep_time = m_prep_time d;
          setup_time = m_setup_time d;
          finishing_per_part = m_finishing_per_part d;
          finishing_per_plate = m_finishing_per_plate d;
          printer_cost = m_printer_cost d;
          printer_lifespan = m_printer_lifespan d;
          maintenance_cost = m_maintenance_cost d;
          power_watts = m_power_watts d;
          electricity_cost = m_electricity_cost d;
          bed_cost = m_bed_cost d;
          bed_lifespan = m_bed_lifespan d;
          nozzle_cost = m_nozzle_cost d;
          nozzle_lifespan_kg = m_nozzle_lifespan_kg d;
          solvent_cost = m_solvent_cost d;
          solving_time = m_solving_time d;
          tank_power = m_tank_power d;
          finishing_materials = m_finishing_materials d;
          markup_percent = m_markup_percent d / 100;
          calc_material_cost = total_material_cost;
          labor_time_minutes =
            prep_time + setup_time + (finishing_per_part * real_of_int (sint parts_per_plate))
              + finishing_per_plate;
          calc_labor_cost = Some ((labor_time_minutes / 60) * labor_rate);
          depreciation_per_hour = ddiv (Some printer_cost) (Some printer_lifespan);
          power_cost_per_hour = Some ((power_watts / 1000) * electricity_cost);
          machine_hourly_rate =
            dadd (dadd depreciation_per_hour (Some maintenance_cost)) power_cost_per_hour;
          calc_machine_cost = dmul machine_hourly_rate print_time_hours;
          c_bed = dmul (ddiv (Some bed_cost) (Some bed_lifespan)) print_time_hours;
          total_filament_kg =
            foldl (\<lambda>acc data. dadd acc (ddiv (weight_g data) (Some 1000))) (Some 0) (m_filament_data d);
          c_nozzle = dmul (ddiv (Some nozzle_cost) (Some nozzle_lifespan_kg)) total_filament_kg;
          calc_tooling_cost = dadd c_bed c_nozzle;
          c_tank_power = (tank_power / 1000) * electricity_cost * solving_time;
          calc_postprocess_cost = Some (c_tank_power + finishing_materials);
          calc_subtotal =
            dadd (dadd (dadd (dadd calc_material_cost calc_labor_cost) calc_machine_cost)
              calc_tooling_cost) calc_postprocess_cost;
          calc_failure_adjustment =
            (if failure_rate < 1
             then dsub (ddiv calc_subtotal (Some (1 - failure_rate))) calc_subtotal
             else Some 0);
          total_plate_cost = dadd calc_subtotal calc_failure_adjustment;
          calc_cost_per_part =
            (if 0 < sint parts_per_plate
             then ddiv total_plate_cost (Some (real_of_int (sint parts_per_plate)))
             else total_plate_cost);
          calc_markup_amount = dmul calc_cost_per_part (Some markup_percent);
          calc_final_price = dadd calc_cost_per_part calc_markup_amount;
          total_parts = parts_per_plate * num_plates;
          calc_total_job_cost = dmul calc_final_price (Some (real_of_int (sint total_parts)))
      in Inr (d\<lparr>m_calc_material_cost := calc_material_cost,
           m_calc_labor_cost := calc_labor_cost,
           m_calc_machine_cost := calc_machine_cost,
           m_calc_tooling_cost := calc_tooling_cost,
           m_calc_postprocess_cost := calc_postprocess_cost,
           m_calc_subtotal := calc_subtotal,
           m_calc_failure_adjustment := calc_failure_adjustment,
           m_calc_cost_per_part := calc_cost_per_part,
           m_calc_markup_amount := calc_markup_amount,
           m_calc_final_price := calc_final_price,
           m_calc_total_job_cost := calc_total_job_cost,
           m_calc_print_time_hours := print_time_hours\<rparr>)))"

section \<open>The job profile store\<close>

definition job_prefix :: "string \<Rightarrow> string" where
  "job_prefix profile_name = ''invoice_job_'' @ profile_name @ ''_''"

text \<open>The lambdas \<open>get_str\<close>, \<open>get_int\<close> and \<open>get_dbl\<close> of \<open>load_job_profile\<close>.\<close>

definition get_str :: "AppConfig \<Rightarrow> string \<Rightarrow> string \<Rightarrow> string" where
  "get_str config prefix key = app_get config (prefix @ key)"

definition get_int :: "AppConfig \<Rightarrow> string \<Rightarrow> string \<Rightarrow> cint \<Rightarrow> error + cint" where
  "get_int config prefix key def =
     (let v = get_str config prefix key in if v = [] then Inr def else stoi v)"

definition get_dbl :: "AppConfig \<Rightarrow> string \<Rightarrow> string \<Rightarrow> real \<Rightarrow> error + double" where
  "get_dbl config prefix key def =
     (let v = get_str config prefix key in if v = [] then Inr (Some def) else stod v)"

text \<open>
  One statement of \<open>load_job_profile\<close>: the key it reads, and the control it sets from
  the text, from \<open>get_int\<close> with a default or from \<open>get_dbl\<close> with a default.
\<close>

datatype loader =
    LoadStr "string \<Rightarrow> InvoiceDialog \<Rightarrow> InvoiceDialog"
  | LoadInt cint "cint \<Rightarrow> InvoiceDialog \<Rightarrow> InvoiceDialog"
  | LoadDbl real "real \<Rightarrow> InvoiceDialog \<Rightarrow> InvoiceDialog"

text \<open>The statements of \<open>load_job_profile\<close> between the lambdas and \<open>calculate_costs\<close>, in order.\<close>

definition load_fields :: "(string \<times> loader) list" where
  "load_fields =
     [(''customer_name'', LoadStr (\<lambda>v d. d\<lparr>m_txt_customer_name := v\<rparr>)),
      (''customer_email'', LoadStr (\<lambda>v d. d\<lparr>m_txt_customer_email := v\<rparr>)),
      (''customer_phone'', LoadStr (\<lambda>v d. d\<lparr>m_txt_customer_phone := v\<rparr>)),
      (''job_name'', LoadStr (\<lambda>v d. d\<lparr>m_txt_job_name := v\<rparr>)),
      (''job_description'', LoadStr (\<lambda>v d. d\<lparr>m_txt_job_description := v\<rparr>)),
      (''parts_per_plate'', LoadInt 1 (\<lambda>v d. d\<lparr>m_parts_per_plate := v\<rparr>)),
      (''num_plates'', LoadInt 1 (\<lambda>v d. d\<lparr>m_num_plates := v\<rparr>)),
      (''failure_rate'', LoadDbl 5 (\<lambda>v d. d\<lparr>m_failure_rate := v\<rparr>)),
      (''labor_rate'', LoadDbl 20 (\<lambda>v d. d\<lparr>m_labor_rate := v\<rparr>)),
      (''prep_time'', LoadDbl 15 (\<lambda>v d. d\<lparr>m_prep_time := v\<rparr>)),
      (''setup_time'', LoadDbl 10 (\<lambda>v d. d\<lparr>m_setup_time := v\<rparr>)),
      (''finishing_per_part'', LoadDbl 5 (\<lambda>v d. d\<lparr>m_finishing_per_part := v\<rparr>)),
      (''finishing_per_plate'', LoadDbl 0 (\<lambda>v d. d\<lparr>m_finishing_per_plate := v\<rparr>)),
      (''printer_cost'', LoadDbl 300 (\<lambda>v d. d\<lparr>m_printer_cost := v\<rparr>)),
      (''printer_lifespan'', LoadDbl 15000 (\<lambda>v d. d\<lparr>m_printer_lifespan := v\<rparr>)),
      (''maintenance_cost'', LoadDbl (10 / 100) (\<lambda>v d. d\<lparr>m_maintenance_cost := v\<rparr>)),
      (''power_watts'', LoadDbl 130 (\<lambda>v d. d\<lparr>m_power_watts := v\<rparr>)),
      (''electricity_cost'', LoadDbl (15 / 100) (\<lambda>v d. d\<lparr>m_electricity_cost := v\<rparr>)),
      (''bed_cost'', LoadDbl 30 (\<lambda>v d. d\<lparr>m_bed_cost := v\<rparr>)),
      (''bed_lifespan'', LoadDbl 5000 (\<lambda>v d. d\<lparr>m_bed_lifespan := v\<rparr>)),
      (''nozzle_cost'', LoadDbl 2 (\<lambda>v d. d\<lparr>m_nozzle_cost := v\<rparr>)),
      (''nozzle_lifespan_kg'', LoadDbl 25 (\<lambda>v d. d\<lparr>m_nozzle_lifespan_kg := v\<rparr>)),
      (''solvent_cost'', LoadDbl 0 (\<lambda>v d. d\<lparr>m_solvent_cost := v\<rparr>)),
      (''solving_time'', LoadDbl 0 (\<lambda>v d. d\<lparr>m_solving_time := v\<rparr>)),
      (''tank_power'', LoadDbl 0 (\<lambda>v d. d\<lparr>m_tank_power := v\<rparr>)),
      (''finishing_materials'', LoadDbl 0 (\<lambda>v d. d\<lparr>m_finishing_materials := v\<rparr>)),
      (''markup_percent'', LoadDbl 50 (\<lambda>v d. d\<lparr>m_markup_percent := v\<rparr>))]"

text \<open>
  Running one statement: the argument of \<open>SetValue\<close> is evaluated first, and an exception
  of \<open>std::stoi\<close> or \<open>std::stod\<close> leaves the statement before the control is set. A spin
  control stores a number; with an infinity or a NaN it does what wxWidgets decides.
\<close>

fun load_step ::
  "wx_env \<Rightarrow> AppConfig \<Rightarrow> string \<Rightarrow> string \<times> loader \<Rightarrow> InvoiceDialog \<Rightarrow> error + InvoiceDialog" where
  "load_step wx config prefix (key, LoadStr setter) d = Inr (setter (get_str config prefix key) d)"
| "load_step wx config prefix (key, LoadInt def setter) d =
     (case get_int config prefix key def of Inl e \<Rightarrow> Inl e | Inr v \<Rightarrow> Inr (setter v d))"
| "load_step wx config prefix (key, LoadDbl def setter) d =
     (case get_dbl config prefix key def of
        Inl e \<Rightarrow> Inl e
      | Inr None \<Rightarrow> Inr (setter (set_value_non_finite wx key (get_str config prefix key) d) d)
      | Inr (Some v) \<Rightarrow> Inr (setter v d))"

text \<open>
  Running the statements in order. Nothing catches an exception: it ends the run with the
  controls set so far, and the result names it.
\<close>

fun load_run ::
  "wx_env \<Rightarrow> AppConfig \<Rightarrow> string \<Rightarrow> (string \<times> loader) list \<Rightarrow> InvoiceDialog
     \<Rightarrow> error option \<times> InvoiceDialog" where
  "load_run wx config prefix [] d = (None, d)"
| "load_run wx config prefix (f # fs) d =
     (case load_step wx config prefix f d of
        Inl e \<Rightarrow> (Some e, d)
      | Inr d' \<Rightarrow> load_run wx config prefix fs d')"

text \<open>
  \<open>InvoiceDialog::load_job_profile\<close>. The result is the dialog after the call and the
  exception that reaches the caller, if any. \<open>config\<close> is the pointer
  \<open>wxGetApp().app_config\<close>, which may be null. The last statement is the call of
  \<open>calculate_costs\<close>, whose exception reaches the caller too.
\<close>

definition load_job_profile ::
  "wx_env \<Rightarrow> AppConfig option \<Rightarrow> string \<Rightarrow> InvoiceDialog \<Rightarrow> error option \<times> InvoiceDialog" where
  "load_job_profile wx config_ptr profile_name d =
     (case config_ptr of
        None \<Rightarrow> (None, d)
      | Some config \<Rightarrow>
          if profile_name = [] then (None, d)
          else (case load_run wx config (job_prefix profile_name) load_fields d of
                  (Some e, d') \<Rightarrow> (Some e, d')
                | (None, d') \<Rightarrow>
                    (case calculate_costs d' of Inl e \<Rightarrow> (Some e, d') | Inr d'' \<Rightarrow> (None, d''))))"

text \<open>
  The loop \<open>while (std::getline(ss, item, ';'))\<close>: the items it yields. \<open>getline_loop\<close>
  carries the item read so far; at the end of the text an item with no character read
  ends the loop.
\<close>

fun getline_loop :: "string \<Rightarrow> string \<Rightarrow> string list" where
  "getline_loop item [] = (if item = [] then [] else [item])"
| "getline_loop item (c # s) =
     (if c = CHR '';'' then item # getline_loop [] s else getline_loop (item @ [c]) s)"

definition getline_items :: "string \<Rightarrow> string list" where
  "getline_items profiles_str = getline_loop [] profiles_str"

text \<open>\<open>InvoiceDialog::refresh_job_profiles_combo\<close>.\<close>

definition refresh_job_profiles_combo :: "AppConfig option \<Rightarrow> InvoiceDialog \<Rightarrow> InvoiceDialog" where
  "refresh_job_profiles_combo config_ptr d =
     (case config_ptr of
        None \<Rightarrow> d\<lparr>m_combo_job_profiles := []\<rparr>
      | Some config \<Rightarrow>
          d\<lparr>m_combo_job_profiles :=
              filter (\<lambda>item. item \<noteq> []) (getline_items (app_get config ''invoice_profiles''))\<rparr>)"

text \<open>The calls of \<open>set_val\<close> in \<open>save_job_profile\<close>, in order: the key and the text stored.\<close>

definition profile_values :: "InvoiceDialog \<Rightarrow> (string \<times> string) list" where
  "profile_values d =
     [(''customer_name'', m_txt_customer_name d),
      (''customer_email'', m_txt_customer_email d),
      (''customer_phone'', m_txt_customer_phone d),
      (''job_name'', m_txt_job_name d),
      (''job_description'', m_txt_job_description d),
      (''parts_per_plate'', to_string_int (m_parts_per_plate d)),
      (''num_plates'', to_string_int (m_num_plates d)),
      (''failure_rate'', to_string_double (m_failure_rate d)),
      (''labor_rate'', to_string_double (m_labor_rate d)),
      (''prep_time'', to_string_double (m_prep_time d)),
      (''setup_time'', to_string_double (m_setup_time d)),
      (''finishing_per_part'', to_string_double (m_finishing_per_part d)),
      (''finishing_per_plate'', to_string_double (m_finishing_per_plate d)),
      (''printer_cost'', to_string_double (m_printer_cost d)),
      (''printer_lifespan'', to_string_double (m_printer_lifespan d)),
      (''maintenance_cost'', to_string_double (m_maintenance_cost d)),
      (''power_watts'', to_string_double (m_power_watts d)),
      (''electricity_cost'', to_string_double (m_electricity_cost d)),
      (''bed_cost'', to_string_double (m_bed_cost d)),
      (''bed_lifespan'', to_string_double (m_bed_lifespan d)),
      (''nozzle_cost'', to_string_double (m_nozzle_cost d)),
      (''nozzle_lifespan_kg'', to_string_double (m_nozzle_lifespan_kg d)),
      (''solvent_cost'', to_string_double (m_solvent_cost d)),
      (''solving_time'', to_string_double (m_solving_time d)),
      (''tank_power'', to_string_double (m_tank_power d)),
      (''finishing_materials'', to_string_double (m_finishing_materials d)),
      (''markup_percent'', to_string_double (m_markup_percent d))]"

fun set_vals :: "string \<Rightarrow> (string \<times> string) list \<Rightarrow> AppConfig \<Rightarrow> AppConfig" where
  "set_vals prefix [] config = config"
| "set_vals prefix ((key, val) # kvs) config = set_vals prefix kvs (app_set config (prefix @ key) val)"

text \<open>The text both functions write back: every item followed by a semicolon.\<close>

definition join_profiles :: "string list \<Rightarrow> string" where
  "join_profiles profiles = foldl (\<lambda>new_list p. new_list @ p @ '';'') [] profiles"

text \<open>\<open>InvoiceDialog::save_job_profile\<close>: the store and the dialog after the call.\<close>

definition save_job_profile ::
  "AppConfig option \<Rightarrow> string \<Rightarrow> InvoiceDialog \<Rightarrow> AppConfig option \<times> InvoiceDialog" where
  "save_job_profile config_ptr profile_name d =
     (case config_ptr of
        None \<Rightarrow> (None, d)
      | Some config \<Rightarrow>
          if profile_name = [] then (Some config, d)
          else
            (let config1 = set_vals (job_prefix profile_name) (profile_values d) config;
                 profiles = getline_items (app_get config1 ''invoice_profiles'');
                 found = (\<exists>item \<in> set profiles. item = profile_name);
                 config2 =
                   (if \<not> found
                    then app_set config1 ''invoice_profiles'' (join_profiles (profiles @ [profile_name]))
                    else config1)
             in (Some config2, refresh_job_profiles_combo (Some config2) d)))"

text \<open>\<open>InvoiceDialog::delete_job_profile\<close>.\<close>

definition delete_job_profile ::
  "AppConfig option \<Rightarrow> string \<Rightarrow> InvoiceDialog \<Rightarrow> AppConfig option \<times> InvoiceDialog" where
  "delete_job_profile config_ptr profile_name d =
     (case config_ptr of
        None \<Rightarrow> (None, d)
      | Some config \<Rightarrow>
          if profile_name = [] then (Some config, d)
          else
            (let items = getline_items (app_get config ''invoice_profiles'');
                 new_list = join_profiles (filter (\<lambda>item. item \<noteq> profile_name) items);
                 config' = app_set config ''invoice_profiles'' new_list
             in (Some config', refresh_job_profiles_combo (Some config') d)))"

text \<open>A session of saves and deletes on the store, as the buttons issue them.\<close>

datatype profile_op = SaveProfile string | DeleteProfile string

fun profile_step ::
  "AppConfig option \<times> InvoiceDialog \<Rightarrow> profile_op \<Rightarrow> AppConfig option \<times> InvoiceDialog" where
  "profile_step (config_ptr, d) (SaveProfile n) = save_job_profile config_ptr n d"
| "profile_step (config_ptr, d) (DeleteProfile n) = delete_job_profile config_ptr n d"

definition profile_session ::
  "profile_op list \<Rightarrow> AppConfig option \<times> InvoiceDialog \<Rightarrow> AppConfig option \<times> InvoiceDialog" where
  "profile_session ops st = foldl profile_step st ops"

section \<open>The XML escaping of the exporter\<close>

text \<open>
  \<open>InvoiceDialog::escape_xml\<close>: the loop appends to \<open>result\<close> character by character;
  \<open>escape_xml_loop\<close> is the loop with the \<open>result\<close> built so far.
\<close>

fun escape_xml_loop :: "string \<Rightarrow> string \<Rightarrow> string" where
  "escape_xml_loop result [] = result"
| "escape_xml_loop result (c # str) =
     escape_xml_loop
       (if c = CHR ''&'' then result @ ''&amp;''
        else if c = CHR ''<'' then result @ ''&lt;''
        else if c = CHR ''>'' then result @ ''&gt;''
        else if c = CHR 0x22 then result @ ''&quot;''
        else if c = CHR 0x27 then result @ ''&apos;''
        else result @ [c])
       str"

definition escape_xml :: "string \<Rightarrow> string" where
  "escape_xml str = escape_xml_loop [] str"

text \<open>The replacement the specification gives for one character.\<close>

definition xml_entity :: "char \<Rightarrow> string" where
  "xml_entity c =
     (if c = CHR ''&'' then ''&amp;''
      else if c = CHR ''<'' then ''&lt;''
      else if c = CHR ''>'' then ''&gt;''
      else if c = CHR 0x22 then ''&quot;''
      else if c = CHR 0x27 then ''&apos;''
      else [c])"

section \<open>The report exporter\<close>

text \<open>
  The document is the text of the \<open>file << ...\<close> statements, one list entry each; the
  pieces that wxWidgets formats come from \<open>wx_env\<close>.
\<close>

definition workbook_head :: string where
  \<open>workbook_head = concat
     [''<?xml version="1.0"?>\<newline>'',
      ''<?mso-application progid="Excel.Sheet"?>\<newline>'',
      ''<Workbook xmlns="urn:schemas-microsoft-com:office:spreadsheet"\<newline>'',
      '' xmlns:o="urn:schemas-microsoft-com:office:office"\<newline>'',
      '' xmlns:x="urn:schemas-microsoft-com:office:excel"\<newline>'',
      '' xmlns:ss="urn:schemas-microsoft-com:office:spreadsheet"\<newline>'',
      '' xmlns:html="http://www.w3.org/TR/REC-html40">\<newline>'',
      ''<Styles>\<newline>'',
      '' <Style ss:ID="Default" ss:Name="Normal">\<newline>'',
      ''  <Alignment ss:Vertical="Bottom"/>\<newline>'',
      ''  <Borders/>\<newline>'',
      ''  <Font ss:FontName="Calibri" x:Family="Swiss" ss:Size="11" ss:Color="#000000"/>\<newline>'',
      ''  <Interior/>\<newline>'',
      ''  <NumberFormat/>\<newline>'',
      ''  <Protection/>\<newline>'',
      '' </Style>\<newline>'',
      '' <Style ss:ID="sHeader">\<newline>'',
      ''  <Font ss:FontName="Calibri" x:Family="Swiss" ss:Size="14" ss:Bold="1"/>\<newline>'',
      ''  <Alignment ss:Horizontal="Center"/>\<newline>'',
      '' </Style>\<newline>'',
      '' <Style ss:ID="sBold">\<newline>'',
      ''  <Font ss:FontName="Calibri" x:Family="Swiss" ss:Size="11" ss:Bold="1"/>\<newline>'',
      '' </Style>\<newline>'',
      '' <Style ss:ID="sCurrency">\<newline>'',
      ''  <NumberFormat ss:Format="$#,##0.00"/>\<newline>'',
      '' </Style>\<newline>'',
      '' <Style ss:ID="sCurrencyBold">\<newline>'',
      ''  <Font ss:FontName="Calibri" x:Family="Swiss" ss:Size="11" ss:Bold="1"/>\<newline>'',
      ''  <NumberFormat ss:Format="$#,##0.00"/>\<newline>'',
      '' </Style>\<newline>'',
      ''</Styles>\<newline>'']\<close>

definition filament_row :: "wx_env \<Rightarrow> FilamentData \<Rightarrow> string" where
  \<open>filament_row wx data = concat
     [''<Row>\<newline>'',
      ''<Cell><Data ss:Type="String">'' @ escape_xml (name data) @ '' ('' @ escape_xml (color data) @ '')</Data></Cell>\<newline>'',
      ''<Cell><Data ss:Type="String">'' @ format_weight wx (weight_g data) @ ''</Data></Cell>\<newline>'',
      ''</Row>\<newline>'']\<close>

definition invoice_sheet :: "wx_env \<Rightarrow> InvoiceDialog \<Rightarrow> string" where
  \<open>invoice_sheet wx d =
     (let total_parts = m_parts_per_plate d * m_num_plates d in concat
     [''<Worksheet ss:Name="Invoice">\<newline>'',
      ''<Table ss:ExpandedColumnCount="5" x:FullColumns="1" x:FullRows="1" ss:DefaultRowHeight="15">\<newline>'',
      ''<Column ss:Width="150"/>\<newline>'',
      ''<Column ss:Width="100"/>\<newline>'',
      ''<Column ss:Width="100"/>\<newline>'',
      ''<Row ss:Height="20">\<newline>'',
      ''<Cell ss:MergeAcross="4" ss:StyleID="sHeader"><Data ss:Type="String">INVOICE</Data></Cell>\<newline>'',
      ''</Row>\<newline>'',
      ''<Row><Cell><Data ss:Type="String"></Data></Cell></Row>\<newline>'',
      ''<Row><Cell ss:StyleID="sBold"><Data ss:Type="String">From:</Data></Cell><Cell><Data ss:Type="String">'' @ escape_xml (m_txt_business_name d) @ ''</Data></Cell></Row>\<newline>'',
      ''<Row><Cell><Data ss:Type="String"></Data></Cell></Row>\<newline>'',
      ''<Row><Cell ss:StyleID="sBold"><Data ss:Type="String">To:</Data></Cell><Cell><Data ss:Type="String">'' @ escape_xml (m_txt_customer_name d) @ ''</Data></Cell></Row>\<newline>'',
      ''<Row><Cell ss:StyleID="sBold"><Data ss:Type="String">Email:</Data></Cell><Cell><Data ss:Type="String">'' @ escape_xml (m_txt_customer_email d) @ ''</Data></Cell></Row>\<newline>'',
      ''<Row><Cell ss:StyleID="sBold"><Data ss:Type="String">Phone:</Data></Cell><Cell><Data ss:Type="String">'' @ escape_xml (m_txt_customer_phone d) @ ''</Data></Cell></Row>\<newline>'',
      ''<Row><Cell><Data ss:Type="String"></Data></Cell></Row>\<newline>'',
      ''<Row><Cell ss:StyleID="sBold"><Data ss:Type="String">Job Name:</Data></Cell><Cell><Data ss:Type="String">'' @ escape_xml (m_txt_job_name d) @ ''</Data></Cell></Row>\<newline>'',
      ''<Row><Cell ss:StyleID="sBold"><Data ss:Type="String">Description:</Data></Cell><Cell><Data ss:Type="String">'' @ escape_xml (m_txt_job_description d) @ ''</Data></Cell></Row>\<newline>'',
      ''<Row><Cell ss:StyleID="sBold"><Data ss:Type="String">Date:</Data></Cell><Cell><Data ss:Type="String">'' @ format_date wx @ ''</Data></Cell></Row>\<newline>'',
      ''<Row><Cell><Data ss:Type="String"></Data></Cell></Row>\<newline>'',
      ''<Row ss:StyleID="sBold">\<newline>'',
      ''<Cell><Data ss:Type="String">Item</Data></Cell>\<newline>'',
      ''<Cell><Data ss:Type="String">Quantity</Data></Cell>\<newline>'',
      ''<Cell><Data ss:Type="String">Unit Price</Data></Cell>\<newline>'',
      ''<Cell><Data ss:Type="String">Total</Data></Cell>\<newline>'',
      ''</Row>\<newline>'',
      ''<Row>\<newline>'',
      ''<Cell><Data ss:Type="String">3D Printed Parts</Data></Cell>\<newline>'',
      ''<Cell><Data ss:Type="Number">'' @ to_string_int total_parts @ ''</Data></Cell>\<newline>'',
      ''<Cell ss:StyleID="sCurrency"><Data ss:Type="Number">'' @ write_double wx (m_calc_final_price d) @ ''</Data></Cell>\<newline>'',
      ''<Cell ss:StyleID="sCurrency"><Data ss:Type="Number">'' @ write_double wx (m_calc_total_job_cost d) @ ''</Data></Cell>\<newline>'',
      ''</Row>\<newline>'',
      ''<Row><Cell><Data ss:Type="String"></Data></Cell></Row>\<newline>'',
      ''<Row><Cell><Data ss:Type="String"></Data></Cell></Row>\<newline>'',
      ''<Row ss:StyleID="sBold"><Cell><Data ss:Type="String">Material Breakdown</Data></Cell></Row>\<newline>'',
      concat (map (filament_row wx) (m_filament_data d)),
      ''</Table>\<newline>'',
      ''</Worksheet>\<newline>''])\<close>

text \<open>The lambda \<open>add_cost_row\<close>.\<close>

definition add_cost_row :: "wx_env \<Rightarrow> string \<Rightarrow> double \<Rightarrow> string" where
  \<open>add_cost_row wx label val = concat
     [''<Row>\<newline>'',
      ''<Cell><Data ss:Type="String">'' @ label @ ''</Data></Cell>\<newline>'',
      ''<Cell ss:StyleID="sCurrency"><Data ss:Type="Number">'' @ write_double wx val @ ''</Data></Cell>\<newline>'',
      ''</Row>\<newline>'']\<close>

definition internal_sheet :: "wx_env \<Rightarrow> InvoiceDialog \<Rightarrow> string" where
  \<open>internal_sheet wx d = concat
     [''<Worksheet ss:Name="Internal Cost Breakdown">\<newline>'',
      ''<Table ss:ExpandedColumnCount="2" x:FullColumns="1" x:FullRows="1" ss:DefaultRowHeight="15">\<newline>'',
      ''<Column ss:Width="200"/>\<newline>'',
      ''<Column ss:Width="100"/>\<newline>'',
      ''<Row ss:StyleID="sBold"><Cell><Data ss:Type="String">INTERNAL COST BREAKDOWN</Data></Cell></Row>\<newline>'',
      ''<Row><Cell><Data ss:Type="String"></Data></Cell></Row>\<newline>'',
      add_cost_row wx ''Material Cost'' (m_calc_material_cost d),
      add_cost_row wx ''Labor Cost'' (m_calc_labor_cost d),
      add_cost_row wx ''Machine Cost'' (m_calc_machine_cost d),
      add_cost_row wx ''Tooling Cost'' (m_calc_tooling_cost d),
      add_cost_row wx ''Post-Processing Cost'' (m_calc_postprocess_cost d),
      ''<Row><Cell><Data ss:Type="String"></Data></Cell></Row>\<newline>'',
      add_cost_row wx ''Subtotal'' (m_calc_subtotal d),
      add_cost_row wx ''Failure Adjustment'' (m_calc_failure_adjustment d),
      add_cost_row wx ''Markup Amount'' (m_calc_markup_amount d),
      ''<Row><Cell><Data ss:Type="String"></Data></Cell></Row>\<newline>'',
      add_cost_row wx ''Total Job Cost'' (m_calc_total_job_cost d),
      ''</Table>\<newline>'',
      ''</Worksheet>\<newline>'']\<close>

definition export_document :: "wx_env \<Rightarrow> InvoiceDialog \<Rightarrow> string" where
  \<open>export_document wx d =
     workbook_head @ invoice_sheet wx d @ internal_sheet wx d @ ''</Workbook>\<newline>''\<close>

text \<open>
  \<open>InvoiceDialog::export_to_excel\<close>. The function returns nothing; what it does is
  the files after the call and the message boxes it shows. A stream that opens replaces
  the file of the path by what is written to it.
\<close>

definition export_to_excel ::
  "wx_env \<Rightarrow> (string \<rightharpoonup> string) \<Rightarrow> string \<Rightarrow> InvoiceDialog \<Rightarrow> (string \<rightharpoonup> string) \<times> string list" where
  "export_to_excel wx files path d =
     (if \<not> stream_is_ok wx path then (files, [])
      else (files(path \<mapsto> export_document wx d), [''Invoice exported successfully.'']))"

section \<open>Notions of the specification\<close>

text \<open>
  A text is embedded escaped in a document when the document, as a function of the text,
  is a fixed text before and a fixed text after the escaped text.
\<close>

definition embedded_escaped :: "(string \<Rightarrow> string) \<Rightarrow> bool" where
  "embedded_escaped g = (\<exists>pre post. \<forall>v. g v = pre @ escape_xml v @ post)"

text \<open>The constant that \<open>populate_filament_data\<close> uses for \<open>\<pi>\<close>.\<close>

definition pi_approx :: real where
  "pi_approx = 314159265359 / 100000000000"

text \<open>
  The job parameters, in the order \<open>save_job_profile\<close> writes them: the two counts,
  the five texts and the twenty amounts.
\<close>

definition job_integers :: "InvoiceDialog \<Rightarrow> cint list" where
  "job_integers d = [m_parts_per_plate d, m_num_plates d]"

definition job_texts :: "InvoiceDialog \<Rightarrow> string list" where
  "job_texts d =
     [m_txt_customer_name d, m_txt_customer_email d, m_txt_customer_phone d, m_txt_job_name d,
      m_txt_job_description d]"

definition job_doubles :: "InvoiceDialog \<Rightarrow> real list" where
  "job_doubles d =
     [m_failure_rate d,
      m_labor_rate d,
      m_prep_time d,
      m_setup_time d,
      m_finishing_per_part d,
      m_finishing_per_plate d,
      m_printer_cost d,
      m_printer_lifespan d,
      m_maintenance_cost d,
      m_power_watts d,
      m_electricity_cost d,
      m_bed_cost d,
      m_bed_lifespan d,
      m_nozzle_cost d,
      m_nozzle_lifespan_kg d,
      m_solvent_cost d,
      m_solving_time d,
      m_tank_power d,
      m_finishing_materials d,
      m_markup_percent d]"


text \<open>
  The data keys of a profile: the keys that \<open>load_job_profile\<close> reads, which are the keys
  that \<open>save_job_profile\<close> writes.
\<close>

definition data_keys :: "string list" where
  "data_keys = map fst load_fields"

text \<open>
  The exception of \<open>calculate_costs\<close>, if it raises one: it depends on the print time of
  the statistics alone.
\<close>

definition print_time_error :: "PrintStatistics option \<Rightarrow> error option" where
  "print_time_error stats_ptr =
     (case stats_ptr of
        None \<Rightarrow> None
      | Some stats \<Rightarrow>
          (case parse_time_to_hours (estimated_normal_print_time stats) of
             Inl e \<Rightarrow> Some e
           | Inr h \<Rightarrow> None))"

text \<open>
  The list of saved profiles, as the combo box shows it: the non-empty items of the
  registry text. A plain name is not empty and holds no semicolon.
\<close>

definition registry_names :: "AppConfig \<Rightarrow> string list" where
  "registry_names config =
     filter (\<lambda>item. item \<noteq> []) (getline_items (app_get config ''invoice_profiles''))"

fun name_of :: "profile_op \<Rightarrow> string" where
  "name_of (SaveProfile n) = n"
| "name_of (DeleteProfile n) = n"

definition plain_name :: "string \<Rightarrow> bool" where
  "plain_name n = (n \<noteq> [] \<and> CHR '';'' \<notin> set n)"

text \<open>The registry is well formed: it is the join of a duplicate-free list of plain names.\<close>

definition registry_ok :: "AppConfig \<Rightarrow> string list \<Rightarrow> bool" where
  "registry_ok config ns =
     (app_get config ''invoice_profiles'' = join_profiles ns \<and> distinct ns \<and> list_all plain_name ns)"

section \<open>A worked example\<close>

text \<open>
  The example of the specification: four parts per plate, two plates, 5 % failure rate,
  50 % markup, and thirty minutes of labor at 20 per hour, which is a subtotal of 10.
\<close>

definition example_dialog :: InvoiceDialog where
  "example_dialog =
     \<lparr>m_stats = None, m_filament_data = [],
      m_txt_business_name = ''Print Shop'', m_txt_customer_name = ''Tom'',
      m_txt_customer_email = ''tom@example.org'', m_txt_customer_phone = ''555'',
      m_txt_job_name = ''Bracket'', m_txt_job_description = ''Bracket, 4 per plate'',
      m_combo_job_profiles = [],
      m_parts_per_plate = 4, m_num_plates = 2, m_failure_rate = 5,
      m_labor_rate = 20, m_prep_time = 10, m_setup_time = 0, m_finishing_per_part = 5,
      m_finishing_per_plate = 0,
      m_printer_cost = 300, m_printer_lifespan = 15000, m_maintenance_cost = 10 / 100,
      m_power_watts = 130, m_electricity_cost = 15 / 100,
      m_bed_cost = 30, m_bed_lifespan = 5000, m_nozzle_cost = 2, m_nozzle_lifespan_kg = 25,
      m_solvent_cost = 0, m_solving_time = 0, m_tank_power = 0, m_finishing_materials = 0,
      m_markup_percent = 50,
      m_calc_material_cost = Some 0, m_calc_labor_cost = Some 0, m_calc_machine_cost = Some 0,
      m_calc_tooling_cost = Some 0, m_calc_postprocess_cost = Some 0, m_calc_subtotal = Some 0,
      m_calc_failure_adjustment = Some 0, m_calc_cost_per_part = Some 0,
      m_calc_markup_amount = Some 0, m_calc_final_price = Some 0,
      m_calc_total_job_cost = Some 0, m_calc_print_time_hours = Some 0\<rparr>"

definition example_stats :: PrintStatistics where
  "example_stats = \<lparr>filament_stats = [(0, 100)], total_weight = 0,
     estimated_normal_print_time = ''1h 30m''\<rparr>"


definition example_presets :: PresetBundle where
  "example_presets = \<lparr>filament_presets = [''Generic PLA''], project_config = (\<lambda>key. None)\<rparr>"

definition example_store :: AppConfig where
  "example_store = [''invoice_job_p_parts_per_plate'' \<mapsto> ''abc'',
     ''invoice_job_p_failure_rate'' \<mapsto> ''five'']"

text \<open>A store that holds a text of the profile \<open>never saved_v2\<close> and none of \<open>never saved\<close>.\<close>

definition example_other_store :: AppConfig where
  "example_other_store = [''invoice_job_never saved_v2_customer_name'' \<mapsto> ''Ann'']"

definition example_filament :: FilamentData where
  "example_filament = \<lparr>extruder_id = 0, name = ''PLA <basic>'', color = ''#FF0000'',
     weight_g = Some 12, cost_per_kg = Some 20, calculated_cost = Some (24 / 100)\<rparr>"

definition example_wx :: wx_env where
  "example_wx = \<lparr>stream_is_ok = (\<lambda>path. path = ''invoice.xls''),
     write_double = (\<lambda>x. case x of None \<Rightarrow> ''nan'' | Some v \<Rightarrow> to_string_double v),
     format_weight = (\<lambda>w. (case w of None \<Rightarrow> ''nan'' | Some v \<Rightarrow> to_string_double v) @ '' g''),
     format_date = ''2026-10-30'',
     set_value_non_finite = (\<lambda>key v d. 0)\<rparr>"

section \<open>Properties of the library functions\<close>

lemma escape_xml_loop_concat:
  "escape_xml_loop result str = result @ concat (map xml_entity str)"
  by (induction str arbitrary: result) (simp_all add: xml_entity_def)

lemma escape_xml_concat: "escape_xml str = concat (map xml_entity str)"
  by (simp add: escape_xml_def escape_xml_loop_concat)



lemma digits_value_snoc: "digits_value (ds @ [c]) = 10 * digits_value ds + digit_val c"
  by (simp add: digits_value_def)








lemma digit_not_space: "isdigit c \<Longrightarrow> \<not> isspace c"
  by (auto simp: isdigit_def isspace_def)

lemma digit_not_sign: "isdigit c \<Longrightarrow> c \<noteq> CHR ''-'' \<and> c \<noteq> CHR ''+'' \<and> c \<noteq> CHR ''.''"
  by (auto simp: isdigit_def)














lemma range_error_zero: "\<not> range_error 0"
  by (simp add: range_error_def dbl_overflow_def)

lemma range_error_normal: "dbl_min \<le> \<bar>v\<bar> \<Longrightarrow> range_error v = (dbl_overflow \<le> \<bar>v\<bar>)"
  by (auto simp: range_error_def)

lemma range_error_nat: "range_error (real n) = (dbl_overflow \<le> real n)"
proof (cases "n = 0")
  case True
  then show ?thesis using range_error_zero by (simp add: dbl_overflow_def)
next
  case False
  then have "1 \<le> real n" by simp
  moreover have "dbl_min \<le> 1" by (simp add: dbl_min_def)
  ultimately show ?thesis using range_error_normal[of "real n"] by simp
qed


text \<open>A text that starts with a decimal digit is no infinity and no NaN.\<close>

lemma non_finite_text_digit: "isdigit c \<Longrightarrow> \<not> non_finite_text (c # r)"
  by (auto simp: non_finite_text_def isdigit_def split: list.splits)

text \<open>A text without \<open>x\<close> in the second place is read as a decimal number.\<close>

lemma read_number_decimal:
  "(\<And>c0 c1 r. u = c0 # c1 # r \<Longrightarrow> c1 \<noteq> CHR ''x'' \<and> c1 \<noteq> CHR ''X'') \<Longrightarrow> read_number u = read_decimal u"
  by (auto simp: read_number_def split: list.splits)

lemma isdigit_not_x: "isdigit c \<Longrightarrow> c \<noteq> CHR ''x'' \<and> c \<noteq> CHR ''X''"
  by (auto simp: isdigit_def)

lemma read_number_digits:
  assumes "ds \<noteq> []" and "\<forall>c \<in> set ds. isdigit c" and "rest = [] \<or> hd rest = CHR ''.''"
  shows "read_number (ds @ rest) = read_decimal (ds @ rest)"
proof (rule read_number_decimal)
  fix c0 c1 r
  assume u: "ds @ rest = c0 # c1 # r"
  from assms(1) obtain d0 dr where ds: "ds = d0 # dr" by (cases ds) auto
  show "c1 \<noteq> CHR ''x'' \<and> c1 \<noteq> CHR ''X''"
  proof (cases dr)
    case Nil
    with u ds assms(3) have "c1 = CHR ''.''" by (cases rest) auto
    then show ?thesis by simp
  next
    case (Cons d1 dr')
    with u ds have "c1 = d1" by simp
    moreover from Cons ds assms(2) have "isdigit d1" by simp
    ultimately show ?thesis using isdigit_not_x by blast
  qed
qed











text \<open>
  The other texts \<open>std::stod\<close> reads: the spellings of the non-finite values and the
  hexadecimal numbers; and a number that leaves the range of \<open>double\<close>.
\<close>

lemma stod_non_finite:
  "stod ''inf'' = Inr None" "stod ''-Infinity'' = Inr None" "stod ''nan'' = Inr None"
  "stod ''NAN'' = Inr None"
  by (simp_all add: stod_def non_finite_text_def isspace_def)

lemma stod_hexadecimal: "stod ''0x10'' = Inr (Some 16)"
  by (simp add: stod_def non_finite_text_def read_number_def read_hexadecimal_def read_exponent_def
      isxdigit_def xdigit_val_def xdigits_value_def isdigit_def isspace_def digit_val_def
      range_error_nat[of 16, simplified] dbl_overflow_def)

lemma stod_overflow: "stod ''1e999'' = Inl OutOfRange"
proof -
  have ex: "read_exponent (CHR ''e'') (CHR ''E'') ''e999'' = 999"
    by (simp add: read_exponent_def isdigit_def digit_val_def digits_value_def Let_def)
  have rn: "read_number ''1e999'' = Some (10 powi 999)"
    by (simp add: read_number_def read_decimal_def ex isdigit_def digit_val_def digits_value_def
        Let_def del: power_int_numeral)
  have "dbl_overflow \<le> (10::real) ^ 309" by (simp add: dbl_overflow_def)
  also have "\<dots> \<le> 10 ^ 999" by (rule power_increasing) simp_all
  also have "\<dots> = 10 powi 999" by (simp del: power_int_numeral power_numeral add: power_int_def)
  finally have big: "dbl_overflow \<le> 10 powi 999" .
  have ns: "\<not> isspace (CHR ''1'')" by (simp add: isspace_def)
  show ?thesis
    using big by (simp add: stod_def non_finite_text_def ns rn range_error_def del: power_int_numeral)
qed

lemmas double_ops = dadd_def dsub_def dmul_def ddiv_def

section \<open>The print time: what a matched group denotes\<close>

lemma regex_group_digits:
  "regex_search_unit u t = Some m \<Longrightarrow> m \<noteq> [] \<and> (\<forall>c \<in> set m. isdigit c)"
proof (induction t)
  case Nil
  then show ?case by simp
next
  case (Cons c s)
  then show ?case by (auto split: if_splits dest: set_takeWhileD)
qed

lemma regex_group_length: "regex_search_unit u t = Some m \<Longrightarrow> length m \<le> length t"
proof (induction t)
  case Nil
  then show ?case by simp
next
  case (Cons c s)
  have "length (takeWhile isdigit s) \<le> length s" by (rule length_takeWhile_le)
  with Cons show ?case by (auto split: if_splits)
qed

lemma digit_val_less: "isdigit c \<Longrightarrow> digit_val c < 10"
  by (auto simp: isdigit_def digit_val_def)

lemma digits_value_less: "\<forall>c \<in> set m. isdigit c \<Longrightarrow> digits_value m < 10 ^ length m"
proof (induction m rule: rev_induct)
  case Nil
  then show ?case by (simp add: digits_value_def)
next
  case (snoc c m)
  then have "digits_value m < 10 ^ length m" and "digit_val c < 10"
    using digit_val_less by auto
  then have "10 * digits_value m + digit_val c < 10 * 10 ^ length m" by linarith
  then show ?case by (simp add: digits_value_snoc)
qed

text \<open>\<open>std::stod\<close> of a run of digits: the number it denotes, unless that overflows.\<close>

lemma stod_digit_run:
  assumes "m \<noteq> []" and "\<forall>c \<in> set m. isdigit c"
  shows "stod m = (if dbl_overflow \<le> real (digits_value m) then Inl OutOfRange
                   else Inr (Some (real (digits_value m))))"
proof -
  from assms obtain c s where m: "m = c # s" by (cases m) auto
  with assms(2) have c: "isdigit c" by simp
  from c have sp: "\<not> isspace c" by (rule digit_not_space)
  from c have sg: "c \<noteq> CHR ''-''" "c \<noteq> CHR ''+''" using digit_not_sign by blast+
  from assms(2) have t: "takeWhile isdigit m = m" and dr: "dropWhile isdigit m = []" by simp_all
  have rs: "read_sign (dropWhile isspace m) = (False, m)"
    using sp sg by (simp add: m)
  have nf: "\<not> non_finite_text m" using c non_finite_text_digit by (simp add: m)
  have "read_number m = read_decimal m"
    using read_number_digits[of m "[]"] assms by simp
  also have "\<dots> = Some (real (digits_value m))"
    using assms(1) by (simp add: read_decimal_def t dr Let_def read_exponent_def digits_value_def)
  finally show ?thesis
    using nf by (simp add: stod_def rs range_error_nat)
qed

lemma stod_regex_group:
  "regex_search_unit u t = Some m \<Longrightarrow>
    stod m = (if dbl_overflow \<le> real (digits_value m) then Inl OutOfRange
              else Inr (Some (real (digits_value m))))"
  using regex_group_digits[of u t m] stod_digit_run[of m] by blast

lemma stod_regex_group_short:
  assumes "regex_search_unit u t = Some m" and "length t \<le> 308"
  shows "stod m = Inr (Some (real (digits_value m)))"
proof -
  have "digits_value m < 10 ^ length m"
    using regex_group_digits[OF assms(1)] digits_value_less by blast
  also have "(10::nat) ^ length m \<le> 10 ^ 308"
    using regex_group_length[OF assms(1)] assms(2) by (intro power_increasing) auto
  finally have "real (digits_value m) < real (10 ^ 308)" by (simp only: of_nat_less_iff)
  also have "real (10 ^ 308) < dbl_overflow" by (simp add: dbl_overflow_def)
  finally show ?thesis using stod_regex_group[OF assms(1)] by simp
qed


lemma add_match_short:
  assumes "length t \<le> 308" and "\<And>v. \<exists>w. scaled (Some v) = Some w"
  shows "\<exists>x. add_match (regex_search_unit u t) scaled (Some h) = Inr (Some x)"
proof (cases "regex_search_unit u t")
  case None
  then show ?thesis by (simp add: add_match_def)
next
  case (Some m)
  from assms(2) obtain w where "scaled (Some (real (digits_value m))) = Some w" by blast
  with Some stod_regex_group_short[OF Some assms(1)] show ?thesis
    by (simp add: add_match_def dadd_def)
qed


text \<open>A print time of at most 308 characters is read without an exception.\<close>

lemma parse_time_short:
  assumes "length t \<le> 308"
  shows "\<exists>x. parse_time_to_hours t = Inr (Some x)"
proof -
  have t1: "\<exists>w. dmul (Some v) (Some 24) = Some w" for v
    by (rule exI[of _ "v * 24"]) (simp add: dmul_def)
  have t2: "\<exists>w. (\<lambda>v. v) (Some v) = Some w" for v :: real by simp
  have t3: "\<exists>w. ddiv (Some v) (Some 60) = Some w" for v
    by (rule exI[of _ "v / 60"]) (simp add: ddiv_def)
  have t4: "\<exists>w. ddiv (Some v) (Some 3600) = Some w" for v
    by (rule exI[of _ "v / 3600"]) (simp add: ddiv_def)
  have "\<exists>x. add_match (regex_search_unit (CHR ''d'') t) (\<lambda>v. dmul v (Some 24)) (Some 0) = Inr (Some x)"
    by (rule add_match_short[OF assms]) (rule t1)
  then obtain x1 where
    a1: "add_match (regex_search_unit (CHR ''d'') t) (\<lambda>v. dmul v (Some 24)) (Some 0) = Inr (Some x1)"
    by blast
  have "\<exists>x. add_match (regex_search_unit (CHR ''h'') t) (\<lambda>v. v) (Some x1) = Inr (Some x)"
    by (rule add_match_short[OF assms]) (rule t2)
  then obtain x2 where
    a2: "add_match (regex_search_unit (CHR ''h'') t) (\<lambda>v. v) (Some x1) = Inr (Some x2)"
    by blast
  have "\<exists>x. add_match (regex_search_unit (CHR ''m'') t) (\<lambda>v. ddiv v (Some 60)) (Some x2) = Inr (Some x)"
    by (rule add_match_short[OF assms]) (rule t3)
  then obtain x3 where
    a3: "add_match (regex_search_unit (CHR ''m'') t) (\<lambda>v. ddiv v (Some 60)) (Some x2) = Inr (Some x3)"
    by blast
  have "\<exists>x. add_match (regex_search_unit (CHR ''s'') t) (\<lambda>v. ddiv v (Some 3600)) (Some x3) = Inr (Some x)"
    by (rule add_match_short[OF assms]) (rule t4)
  then obtain x4 where
    a4: "add_match (regex_search_unit (CHR ''s'') t) (\<lambda>v. ddiv v (Some 3600)) (Some x3) = Inr (Some x4)"
    by blast
  show ?thesis by (simp add: parse_time_to_hours_def a1 a2 a3 a4)
qed

lemma stod_small_digits:
  "stod ''1'' = Inr (Some 1)" "stod ''2'' = Inr (Some 2)" "stod ''30'' = Inr (Some 30)"
  "stod ''36'' = Inr (Some 36)"
  by (simp_all add: stod_digit_run isdigit_def digits_value_def digit_val_def dbl_overflow_def)

lemma parse_time_example:
  "parse_time_to_hours ''1d 2h 30m 36s'' = Inr (Some (24 + 2 + 1 / 2 + 1 / 100))"
  by (simp add: parse_time_to_hours_def add_match_def isdigit_def isspace_def stod_small_digits
      double_ops)


text \<open>When \<open>calculate_costs\<close> returns and when it raises.\<close>

lemma calculate_costs_raises:
  "(calculate_costs d = Inl e) = (print_time_error (m_stats d) = Some e)"
  by (auto simp: calculate_costs_def print_time_error_def Let_def split: option.splits sum.splits)

lemma calculate_costs_returns:
  "(\<exists>r. calculate_costs d = Inr r) = (print_time_error (m_stats d) = None)"
  by (auto simp: calculate_costs_def print_time_error_def Let_def split: option.splits sum.splits)

lemma print_time_error_short:
  "(case stats_ptr of None \<Rightarrow> True | Some stats \<Rightarrow> length (estimated_normal_print_time stats) \<le> 308)
    \<Longrightarrow> print_time_error stats_ptr = None"
  using parse_time_short by (fastforce simp: print_time_error_def split: option.splits)

section \<open>The cost model: failure adjustment, cost per part, solvent cost\<close>



lemma calculate_costs_per_part:
  "calculate_costs d = Inr r \<Longrightarrow>
    m_calc_cost_per_part r =
      (if 0 < sint (m_parts_per_plate d)
       then ddiv (dadd (m_calc_subtotal r) (m_calc_failure_adjustment r))
              (Some (real_of_int (sint (m_parts_per_plate d))))
       else dadd (m_calc_subtotal r) (m_calc_failure_adjustment r))"
  by (auto simp: calculate_costs_def Let_def split: sum.splits)








lemma example_costs:
  "\<exists>r. calculate_costs example_dialog = Inr r \<and> m_calc_subtotal r = Some 10 \<and>
     m_calc_failure_adjustment r = Some (10 / 19) \<and> m_calc_cost_per_part r = Some (50 / 19) \<and>
     m_calc_markup_amount r = Some (25 / 19) \<and> m_calc_final_price r = Some (75 / 19) \<and>
     m_calc_total_job_cost r = Some (600 / 19)"
  by (simp add: calculate_costs_def example_dialog_def Let_def double_ops)




text \<open>
  C7. \<open>calculate_costs\<close> returns unless the print time raises, which is before any cost
  is computed. When it returns, the cost per part is the total plate cost (subtotal plus
  failure adjustment) divided by the parts per plate when that count is positive, and the
  total plate cost itself when the count is zero (or less); the divisor used is never
  zero, so a total plate cost that is a finite number gives a cost per part that is one.
\<close>

theorem cost_per_part_guarded:
  "((\<exists>r. calculate_costs d = Inr r) = (print_time_error (m_stats d) = None)) \<and>
   (\<forall>r. calculate_costs d = Inr r \<longrightarrow>
   (let total_plate_cost = dadd (m_calc_subtotal r) (m_calc_failure_adjustment r);
        n = sint (m_parts_per_plate d) in
     (0 < n \<longrightarrow> m_calc_cost_per_part r = map_option (\<lambda>t. t / real_of_int n) total_plate_cost) \<and>
     (n \<le> 0 \<longrightarrow> m_calc_cost_per_part r = total_plate_cost) \<and>
     (\<forall>t. total_plate_cost = Some t \<longrightarrow> (\<exists>c. m_calc_cost_per_part r = Some c))))"
proof -
  have main: "(let total_plate_cost = dadd (m_calc_subtotal r) (m_calc_failure_adjustment r);
        n = sint (m_parts_per_plate d) in
     (0 < n \<longrightarrow> m_calc_cost_per_part r = map_option (\<lambda>t. t / real_of_int n) total_plate_cost) \<and>
     (n \<le> 0 \<longrightarrow> m_calc_cost_per_part r = total_plate_cost) \<and>
     (\<forall>t. total_plate_cost = Some t \<longrightarrow> (\<exists>c. m_calc_cost_per_part r = Some c)))"
    if ret: "calculate_costs d = Inr r" for r
  proof -
    define total where "total = dadd (m_calc_subtotal r) (m_calc_failure_adjustment r)"
    define n where "n = sint (m_parts_per_plate d)"
    have cpp: "m_calc_cost_per_part r = (if 0 < n then ddiv total (Some (real_of_int n)) else total)"
      unfolding total_def n_def by (rule calculate_costs_per_part[OF ret])
    have pos: "m_calc_cost_per_part r = map_option (\<lambda>t. t / real_of_int n) total" if "0 < n"
      using that by (cases total) (simp_all add: cpp ddiv_def)
    have zero: "m_calc_cost_per_part r = total" if "n \<le> 0"
      using that by (simp add: cpp)
    have defd: "\<exists>c. m_calc_cost_per_part r = Some c" if "total = Some t" for t
      using that by (cases "0 < n") (simp_all add: cpp ddiv_def)
    from pos zero defd show ?thesis
      unfolding Let_def total_def[symmetric] n_def[symmetric] by blast
  qed
  show ?thesis
    by (intro conjI[OF calculate_costs_returns] allI impI) (rule main)
qed

theorem cost_per_part_guarded_witness:
  "\<exists>r z. calculate_costs example_dialog = Inr r \<and>
     calculate_costs (example_dialog\<lparr>m_parts_per_plate := 0\<rparr>) = Inr z \<and>
     sint (m_parts_per_plate example_dialog) = 4 \<and>
     m_calc_cost_per_part r = Some ((10 + 10 / 19) / 4) \<and>
     m_calc_cost_per_part z = Some (200 / 57) \<and>
     (\<exists>c. m_calc_cost_per_part z = Some c)"
proof -
  let ?z = "example_dialog\<lparr>m_parts_per_plate := 0\<rparr>"
  have n: "sint (m_parts_per_plate example_dialog) = 4" by (simp add: example_dialog_def)
  from example_costs obtain r where ret: "calculate_costs example_dialog = Inr r"
    and t: "dadd (m_calc_subtotal r) (m_calc_failure_adjustment r) = Some (10 + 10 / 19)"
    by (auto simp: dadd_def)
  have a: "m_calc_cost_per_part r = Some ((10 + 10 / 19) / 4)"
    using cost_per_part_guarded[THEN conjunct2, rule_format, OF ret] by (simp add: Let_def n t)
  have nz: "sint (m_parts_per_plate ?z) = 0" by simp
  have "\<exists>z. calculate_costs ?z = Inr z \<and>
      dadd (m_calc_subtotal z) (m_calc_failure_adjustment z) = Some (200 / 57)"
    by (simp add: calculate_costs_def example_dialog_def Let_def double_ops)
  then obtain z where retz: "calculate_costs ?z = Inr z"
    and tz: "dadd (m_calc_subtotal z) (m_calc_failure_adjustment z) = Some (200 / 57)" by blast
  have b: "m_calc_cost_per_part z = Some (200 / 57)"
    using cost_per_part_guarded[THEN conjunct2, rule_format, OF retz] by (simp add: Let_def nz tz)
  from ret retz n a b show ?thesis by blast
qed

text \<open>
  C10. Two runs of \<open>calculate_costs\<close> on dialogs that differ only in the solvent cost end
  alike: with the same exception, or in dialogs that differ only in the solvent cost, so
  that every computed result is the same.
\<close>

theorem solvent_cost_unused:
  "calculate_costs (d\<lparr>m_solvent_cost := v\<rparr>) =
     (case calculate_costs d of Inl e \<Rightarrow> Inl e | Inr r1 \<Rightarrow> Inr (r1\<lparr>m_solvent_cost := v\<rparr>)) \<and>
   (\<forall>r1. calculate_costs d = Inr r1 \<longrightarrow>
     (\<exists>r2. calculate_costs (d\<lparr>m_solvent_cost := v\<rparr>) = Inr r2 \<and>
     r2 = r1\<lparr>m_solvent_cost := v\<rparr> \<and>
     m_calc_material_cost r2 = m_calc_material_cost r1 \<and>
     m_calc_labor_cost r2 = m_calc_labor_cost r1 \<and>
     m_calc_machine_cost r2 = m_calc_machine_cost r1 \<and>
     m_calc_tooling_cost r2 = m_calc_tooling_cost r1 \<and>
     m_calc_postprocess_cost r2 = m_calc_postprocess_cost r1 \<and>
     m_calc_subtotal r2 = m_calc_subtotal r1 \<and>
     m_calc_failure_adjustment r2 = m_calc_failure_adjustment r1 \<and>
     m_calc_cost_per_part r2 = m_calc_cost_per_part r1 \<and>
     m_calc_markup_amount r2 = m_calc_markup_amount r1 \<and>
     m_calc_final_price r2 = m_calc_final_price r1 \<and>
     m_calc_total_job_cost r2 = m_calc_total_job_cost r1 \<and>
     m_calc_print_time_hours r2 = m_calc_print_time_hours r1))"
proof -
  have eq: "calculate_costs (d\<lparr>m_solvent_cost := v\<rparr>) =
      (case calculate_costs d of Inl e \<Rightarrow> Inl e | Inr r1 \<Rightarrow> Inr (r1\<lparr>m_solvent_cost := v\<rparr>))"
    by (simp add: calculate_costs_def Let_def split: sum.splits option.splits)
  then show ?thesis by simp
qed

theorem solvent_cost_unused_witness:
  "\<exists>r1 r2. calculate_costs example_dialog = Inr r1 \<and>
     calculate_costs (example_dialog\<lparr>m_solvent_cost := 7\<rparr>) = Inr r2 \<and>
     m_calc_subtotal r1 = Some 10 \<and> m_calc_subtotal r2 = Some 10 \<and>
     m_calc_total_job_cost r1 = Some (600 / 19) \<and> m_calc_total_job_cost r2 = Some (600 / 19)"
proof -
  from example_costs obtain r1 where ret: "calculate_costs example_dialog = Inr r1"
    and s: "m_calc_subtotal r1 = Some 10" and t: "m_calc_total_job_cost r1 = Some (600 / 19)"
    by blast
  from solvent_cost_unused[where d = example_dialog and v = 7] ret obtain r2 where
    "calculate_costs (example_dialog\<lparr>m_solvent_cost := 7\<rparr>) = Inr r2"
    "m_calc_subtotal r2 = m_calc_subtotal r1" "m_calc_total_job_cost r2 = m_calc_total_job_cost r1"
    by blast
  with ret s t show ?thesis by auto
qed

section \<open>The filament usage resolver: weight\<close>

lemma populate_loop_entries:
  "populate_loop stats presets entries acc = Inr fds \<Longrightarrow>
   length fds = length acc + length entries \<and>
   (\<forall>i < length acc. fds ! i = acc ! i) \<and>
   (\<forall>i < length entries. filament_entry stats presets (entries ! i) = Inr (fds ! (length acc + i)))"
proof (induction entries arbitrary: acc)
  case Nil
  then show ?case by simp
next
  case (Cons entry entries)
  from Cons.prems obtain data where
    e: "filament_entry stats presets entry = Inr data" and
    r: "populate_loop stats presets entries (acc @ [data]) = Inr fds"
    by (auto split: sum.splits)
  from Cons.IH[OF r] have
    len: "length fds = length (acc @ [data]) + length entries" and
    old: "\<forall>i < length (acc @ [data]). fds ! i = (acc @ [data]) ! i" and
    new: "\<forall>i < length entries. filament_entry stats presets (entries ! i) = Inr (fds ! (length (acc @ [data]) + i))"
    by blast+
  have a: "\<forall>i < length acc. fds ! i = acc ! i"
  proof (intro allI impI)
    fix i assume "i < length acc"
    with old show "fds ! i = acc ! i" by (auto simp: nth_append)
  qed
  have d: "fds ! length acc = data" using old by (auto simp: nth_append)
  have b: "\<forall>i < length (entry # entries).
      filament_entry stats presets ((entry # entries) ! i) = Inr (fds ! (length acc + i))"
  proof (intro allI impI)
    fix i assume i: "i < length (entry # entries)"
    show "filament_entry stats presets ((entry # entries) ! i) = Inr (fds ! (length acc + i))"
    proof (cases i)
      case 0
      with e d show ?thesis by simp
    next
      case (Suc j)
      with i new show ?thesis by simp
    qed
  qed
  from len a b show ?case by simp
qed

lemma filament_entry_weight:
  "filament_entry stats presets entry = Inr data \<Longrightarrow>
   \<not> (length (filament_stats stats) = 1 \<and> 0 < total_weight stats) \<Longrightarrow>
   \<exists>density diameter.
     preset_number presets ''filament_density'' (fst entry) (124 / 100) = Inr density \<and>
     preset_number presets ''filament_diameter'' (fst entry) (175 / 100) = Inr diameter \<and>
     extruder_id data = fst entry \<and>
     weight_g data =
       ddiv (dmul (dmul (Some (snd entry))
                     (dmul (dmul (Some pi_approx) (ddiv diameter (Some 2))) (ddiv diameter (Some 2))))
               density) (Some 1000)"
  by (auto simp: filament_entry_def Let_def pi_approx_def split: sum.splits if_splits)

lemma weight_finite:
  "ddiv (dmul (dmul (Some usage)
                 (dmul (dmul (Some a) (ddiv (Some diameter) (Some 2))) (ddiv (Some diameter) (Some 2))))
           (Some density)) (Some 1000) =
   Some (usage * (a * (diameter / 2) * (diameter / 2)) * density / 1000)"
  by (simp add: double_ops)

text \<open>
  C2 (as amended). For every entry of the usage map, when the total-weight override for a
  single extruder does not apply, the entry that \<open>populate_filament_data\<close> produces
  has \<open>weight_g = consumption * area * density / 1000\<close> with
  \<open>area = 3.14159265359 * (diameter / 2)\<^sup>2\<close>: the consumption is multiplied by the
  cross-section, as a length is; density and diameter are the preset numbers or the
  defaults 1.24 and 1.75. The equation is one of \<open>double\<close> values, and for a density and a
  diameter that are finite numbers it is the equation of these numbers.
\<close>

theorem filament_weight_uses_area:
  assumes "populate_filament_data (Some stats) (Some presets) = Inr fds"
    and "\<not> (length (filament_stats stats) = 1 \<and> 0 < total_weight stats)"
    and "i < length (filament_stats stats)"
  shows "\<exists>density diameter.
     preset_number presets ''filament_density'' (fst (filament_stats stats ! i)) (124 / 100) = Inr density \<and>
     preset_number presets ''filament_diameter'' (fst (filament_stats stats ! i)) (175 / 100) = Inr diameter \<and>
     i < length fds \<and>
     extruder_id (fds ! i) = fst (filament_stats stats ! i) \<and>
     weight_g (fds ! i) =
       ddiv (dmul (dmul (Some (snd (filament_stats stats ! i)))
                     (dmul (dmul (Some pi_approx) (ddiv diameter (Some 2))) (ddiv diameter (Some 2))))
               density) (Some 1000) \<and>
     (\<forall>rho delta. density = Some rho \<and> diameter = Some delta \<longrightarrow>
        weight_g (fds ! i) =
          Some (snd (filament_stats stats ! i) * (pi_approx * (delta / 2) * (delta / 2)) * rho / 1000))"
proof -
  from assms(1) obtain l where
    l: "populate_loop stats presets (filament_stats stats) [] = Inr l"
    by (auto simp: populate_filament_data_def split: sum.splits)
  from populate_loop_entries[OF l] assms(3) have
    len: "length l = length (filament_stats stats)" and
    ent: "filament_entry stats presets (filament_stats stats ! i) = Inr (l ! i)"
    by auto
  from len assms(3) have "l \<noteq> []" by auto
  with assms(1) l have fds: "fds = l"
    by (simp add: populate_filament_data_def)
  from filament_entry_weight[OF ent assms(2)] obtain density diameter where
    d1: "preset_number presets ''filament_density'' (fst (filament_stats stats ! i)) (124 / 100) = Inr density"
    and d2: "preset_number presets ''filament_diameter'' (fst (filament_stats stats ! i)) (175 / 100) = Inr diameter"
    and id: "extruder_id (l ! i) = fst (filament_stats stats ! i)"
    and w: "weight_g (l ! i) =
       ddiv (dmul (dmul (Some (snd (filament_stats stats ! i)))
                     (dmul (dmul (Some pi_approx) (ddiv diameter (Some 2))) (ddiv diameter (Some 2))))
               density) (Some 1000)"
    by blast
  have fin: "\<forall>rho delta. density = Some rho \<and> diameter = Some delta \<longrightarrow>
        weight_g (l ! i) =
          Some (snd (filament_stats stats ! i) * (pi_approx * (delta / 2) * (delta / 2)) * rho / 1000)"
    using w weight_finite by simp
  have il: "i < length l" using len assms(3) by simp
  from d1 d2 il id w fin show ?thesis unfolding fds by blast
qed

lemma example_populate:
  "populate_filament_data (Some example_stats) (Some example_presets) =
     Inr [\<lparr>extruder_id = 0, name = ''Generic PLA'', color = ''#808080'',
           weight_g = Some (100 * (pi_approx * (175 / 200) * (175 / 200)) * (124 / 100) / 1000),
           cost_per_kg = Some 20,
           calculated_cost =
             Some ((100 * (pi_approx * (175 / 200) * (175 / 200)) * (124 / 100) / 1000) / 1000 * 20)\<rparr>]"
  by (simp add: populate_filament_data_def example_stats_def example_presets_def filament_entry_def
      preset_number_def get_val_def Let_def pi_approx_def double_ops)

theorem filament_weight_uses_area_witness:
  "\<exists>fds.
     populate_filament_data (Some example_stats) (Some example_presets) = Inr fds \<and>
     \<not> (length (filament_stats example_stats) = 1 \<and> 0 < total_weight example_stats) \<and>
     0 < length (filament_stats example_stats) \<and>
     preset_number example_presets ''filament_density'' (fst (filament_stats example_stats ! 0)) (124 / 100)
       = Inr (Some (124 / 100)) \<and>
     preset_number example_presets ''filament_diameter'' (fst (filament_stats example_stats ! 0)) (175 / 100)
       = Inr (Some (175 / 100)) \<and>
     weight_g (fds ! 0) =
       Some (snd (filament_stats example_stats ! 0) * (pi_approx * ((175 / 100) / 2) * ((175 / 100) / 2))
               * (124 / 100) / 1000)"
proof -
  have o: "\<not> (length (filament_stats example_stats) = 1 \<and> 0 < total_weight example_stats)"
    by (simp add: example_stats_def)
  have i: "0 < length (filament_stats example_stats)"
    by (simp add: example_stats_def)
  have d1: "preset_number example_presets ''filament_density'' (fst (filament_stats example_stats ! 0))
      (124 / 100) = Inr (Some (124 / 100))"
    by (simp add: preset_number_def get_val_def example_presets_def)
  have d2: "preset_number example_presets ''filament_diameter'' (fst (filament_stats example_stats ! 0))
      (175 / 100) = Inr (Some (175 / 100))"
    by (simp add: preset_number_def get_val_def example_presets_def)
  from filament_weight_uses_area[OF example_populate o i] obtain density diameter where
    e1: "preset_number example_presets ''filament_density'' (fst (filament_stats example_stats ! 0))
      (124 / 100) = Inr density" and
    e2: "preset_number example_presets ''filament_diameter'' (fst (filament_stats example_stats ! 0))
      (175 / 100) = Inr diameter" and
    w: "\<forall>rho delta. density = Some rho \<and> diameter = Some delta \<longrightarrow>
        weight_g ([\<lparr>extruder_id = 0, name = ''Generic PLA'', color = ''#808080'',
           weight_g = Some (100 * (pi_approx * (175 / 200) * (175 / 200)) * (124 / 100) / 1000),
           cost_per_kg = Some 20,
           calculated_cost =
             Some ((100 * (pi_approx * (175 / 200) * (175 / 200)) * (124 / 100) / 1000) / 1000 * 20)\<rparr>] ! 0) =
          Some (snd (filament_stats example_stats ! 0) * (pi_approx * (delta / 2) * (delta / 2)) * rho / 1000)"
    by blast
  from e1 d1 have "density = Some (124 / 100)" by simp
  moreover from e2 d2 have "diameter = Some (175 / 100)" by simp
  ultimately have "weight_g ([\<lparr>extruder_id = 0, name = ''Generic PLA'', color = ''#808080'',
           weight_g = Some (100 * (pi_approx * (175 / 200) * (175 / 200)) * (124 / 100) / 1000),
           cost_per_kg = Some 20,
           calculated_cost =
             Some ((100 * (pi_approx * (175 / 200) * (175 / 200)) * (124 / 100) / 1000) / 1000 * 20)\<rparr>] ! 0) =
       Some (snd (filament_stats example_stats ! 0) * (pi_approx * ((175 / 100) / 2) * ((175 / 100) / 2))
               * (124 / 100) / 1000)"
    using w by blast
  with example_populate o i d1 d2 show ?thesis by blast
qed

text \<open>
  The claim as stated (weight = consumption * density / 1000, without the area) fails
  for one extruder with consumption 100 and the default density and diameter: the weight
  is about 0.298 g and not 0.124 g.
\<close>

theorem filament_weight_counterexample:
  "\<exists>data. populate_filament_data (Some example_stats) (Some example_presets) = Inr [data] \<and>
     \<not> (length (filament_stats example_stats) = 1 \<and> 0 < total_weight example_stats) \<and>
     filament_stats example_stats = [(0, 100)] \<and>
     preset_number example_presets ''filament_density'' 0 (124 / 100) = Inr (Some (124 / 100)) \<and>
     weight_g data = Some (100 * (pi_approx * (175 / 200) * (175 / 200)) * (124 / 100) / 1000) \<and>
     weight_g data \<noteq> Some (100 * (124 / 100) / 1000)"
  unfolding example_populate
  by (simp add: example_stats_def example_presets_def preset_number_def get_val_def pi_approx_def)

section \<open>The exporter: escaping\<close>

lemma embedded_hole: "embedded_escaped (\<lambda>v. escape_xml v @ b)"
  unfolding embedded_escaped_def by (rule exI[of _ "[]"], rule exI[of _ b]) simp

lemma embedded_left: "embedded_escaped g \<Longrightarrow> embedded_escaped (\<lambda>v. a @ g v)"
  unfolding embedded_escaped_def
proof -
  assume "\<exists>pre post. \<forall>v. g v = pre @ escape_xml v @ post"
  then obtain pre post where "\<forall>v. g v = pre @ escape_xml v @ post" by blast
  then have "\<forall>v. a @ g v = (a @ pre) @ escape_xml v @ post" by simp
  then show "\<exists>pre post. \<forall>v. a @ g v = pre @ escape_xml v @ post" by blast
qed

lemma embedded_right: "embedded_escaped g \<Longrightarrow> embedded_escaped (\<lambda>v. g v @ b)"
  unfolding embedded_escaped_def
proof -
  assume "\<exists>pre post. \<forall>v. g v = pre @ escape_xml v @ post"
  then obtain pre post where "\<forall>v. g v = pre @ escape_xml v @ post" by blast
  then have "\<forall>v. g v @ b = pre @ escape_xml v @ (post @ b)" by simp
  then show "\<exists>pre post. \<forall>v. g v @ b = pre @ escape_xml v @ post" by blast
qed

lemma internal_sheet_text [simp]:
  "internal_sheet wx (d\<lparr>m_txt_business_name := v\<rparr>) = internal_sheet wx d"
  "internal_sheet wx (d\<lparr>m_txt_customer_name := v\<rparr>) = internal_sheet wx d"
  "internal_sheet wx (d\<lparr>m_txt_customer_email := v\<rparr>) = internal_sheet wx d"
  "internal_sheet wx (d\<lparr>m_txt_customer_phone := v\<rparr>) = internal_sheet wx d"
  "internal_sheet wx (d\<lparr>m_txt_job_name := v\<rparr>) = internal_sheet wx d"
  "internal_sheet wx (d\<lparr>m_txt_job_description := v\<rparr>) = internal_sheet wx d"
  "internal_sheet wx (d\<lparr>m_filament_data := fds\<rparr>) = internal_sheet wx d"
  by (simp_all add: internal_sheet_def)

lemma concat_map_update:
  "i < length xs \<Longrightarrow>
   concat (map f (xs[i := x])) = concat (map f (take i xs)) @ f x @ concat (map f (drop (Suc i) xs))"
  by (simp add: upd_conv_take_nth_drop)

lemma embedded_document:
  assumes "embedded_escaped (\<lambda>v. invoice_sheet wx (u v))"
    and "\<And>v. internal_sheet wx (u v) = internal_sheet wx d"
  shows "embedded_escaped (\<lambda>v. export_document wx (u v))"
  unfolding export_document_def assms(2)
  by (intro embedded_left embedded_right assms(1))

lemma embedded_text_fields:
  "embedded_escaped (\<lambda>v. export_document wx (d\<lparr>m_txt_business_name := v\<rparr>))"
  "embedded_escaped (\<lambda>v. export_document wx (d\<lparr>m_txt_customer_name := v\<rparr>))"
  "embedded_escaped (\<lambda>v. export_document wx (d\<lparr>m_txt_customer_email := v\<rparr>))"
  "embedded_escaped (\<lambda>v. export_document wx (d\<lparr>m_txt_customer_phone := v\<rparr>))"
  "embedded_escaped (\<lambda>v. export_document wx (d\<lparr>m_txt_job_name := v\<rparr>))"
  "embedded_escaped (\<lambda>v. export_document wx (d\<lparr>m_txt_job_description := v\<rparr>))"
  by (rule embedded_document, simp add: invoice_sheet_def Let_def del: append.simps,
      intro embedded_left embedded_hole, rule internal_sheet_text)+

lemma embedded_filament_name:
  assumes "i < length (m_filament_data d)"
  shows "embedded_escaped (\<lambda>v. export_document wx
           (d\<lparr>m_filament_data := (m_filament_data d)[i := (m_filament_data d ! i)\<lparr>name := v\<rparr>]\<rparr>))"
  apply (rule embedded_document)
   apply (simp add: invoice_sheet_def Let_def concat_map_update[OF assms] filament_row_def
      del: append.simps)
   apply (intro embedded_left embedded_hole)
  apply (rule internal_sheet_text)
  done

lemma embedded_filament_color:
  assumes "i < length (m_filament_data d)"
  shows "embedded_escaped (\<lambda>v. export_document wx
           (d\<lparr>m_filament_data := (m_filament_data d)[i := (m_filament_data d ! i)\<lparr>color := v\<rparr>]\<rparr>))"
  apply (rule embedded_document)
   apply (simp add: invoice_sheet_def Let_def concat_map_update[OF assms] filament_row_def
      del: append.simps)
   apply (intro embedded_left embedded_hole)
  apply (rule internal_sheet_text)
  done

lemma escape_example:
  \<open>escape_xml ''Tom & Jerry's "Test"'' = ''Tom &amp; Jerry&apos;s &quot;Test&quot;''\<close>
  by (simp add: escape_xml_def)

lemma xml_entity_other:
  "c \<notin> {CHR ''&'', CHR ''<'', CHR ''>'', CHR 0x22, CHR 0x27} \<Longrightarrow> xml_entity c = [c]"
  by (simp add: xml_entity_def)

text \<open>
  C9. \<open>escape_xml\<close> replaces each character of its input by \<open>xml_entity\<close> of the
  character: the five reserved characters by their entities, every other character by
  itself; the example of the specification comes out as stated; and each free text of the
  report (business, customer name, email, phone, job name, description, and the name and
  colour of every filament) is embedded escaped in the exported document.
\<close>

theorem escape_xml_report:
  \<open>escape_xml str = concat (map xml_entity str) \<and>
   xml_entity (CHR ''&'') = ''&amp;'' \<and>
   xml_entity (CHR ''<'') = ''&lt;'' \<and>
   xml_entity (CHR ''>'') = ''&gt;'' \<and>
   xml_entity (CHR 0x22) = ''&quot;'' \<and>
   xml_entity (CHR 0x27) = ''&apos;'' \<and>
   (\<forall>c. c \<notin> {CHR ''&'', CHR ''<'', CHR ''>'', CHR 0x22, CHR 0x27} \<longrightarrow> xml_entity c = [c]) \<and>
   escape_xml ''Tom & Jerry's "Test"'' = ''Tom &amp; Jerry&apos;s &quot;Test&quot;'' \<and>
   embedded_escaped (\<lambda>v. export_document wx (d\<lparr>m_txt_business_name := v\<rparr>)) \<and>
   embedded_escaped (\<lambda>v. export_document wx (d\<lparr>m_txt_customer_name := v\<rparr>)) \<and>
   embedded_escaped (\<lambda>v. export_document wx (d\<lparr>m_txt_customer_email := v\<rparr>)) \<and>
   embedded_escaped (\<lambda>v. export_document wx (d\<lparr>m_txt_customer_phone := v\<rparr>)) \<and>
   embedded_escaped (\<lambda>v. export_document wx (d\<lparr>m_txt_job_name := v\<rparr>)) \<and>
   embedded_escaped (\<lambda>v. export_document wx (d\<lparr>m_txt_job_description := v\<rparr>)) \<and>
   (\<forall>i < length (m_filament_data d).
      embedded_escaped (\<lambda>v. export_document wx
        (d\<lparr>m_filament_data := (m_filament_data d)[i := (m_filament_data d ! i)\<lparr>name := v\<rparr>]\<rparr>)) \<and>
      embedded_escaped (\<lambda>v. export_document wx
        (d\<lparr>m_filament_data := (m_filament_data d)[i := (m_filament_data d ! i)\<lparr>color := v\<rparr>]\<rparr>)))\<close>
proof -
  have ents: "xml_entity (CHR ''&'') = ''&amp;''" "xml_entity (CHR ''<'') = ''&lt;''"
    "xml_entity (CHR ''>'') = ''&gt;''" "xml_entity (CHR 0x22) = ''&quot;''"
    "xml_entity (CHR 0x27) = ''&apos;''"
    by (simp_all add: xml_entity_def)
  have other: "\<forall>c. c \<notin> {CHR ''&'', CHR ''<'', CHR ''>'', CHR 0x22, CHR 0x27} \<longrightarrow> xml_entity c = [c]"
    using xml_entity_other by blast
  have fil: "\<forall>i < length (m_filament_data d).
      embedded_escaped (\<lambda>v. export_document wx
        (d\<lparr>m_filament_data := (m_filament_data d)[i := (m_filament_data d ! i)\<lparr>name := v\<rparr>]\<rparr>)) \<and>
      embedded_escaped (\<lambda>v. export_document wx
        (d\<lparr>m_filament_data := (m_filament_data d)[i := (m_filament_data d ! i)\<lparr>color := v\<rparr>]\<rparr>))"
    using embedded_filament_name embedded_filament_color by blast
  show ?thesis
    by (intro conjI escape_xml_concat ents other escape_example embedded_text_fields fil)
qed

theorem escape_xml_report_witness:
  \<open>escape_xml ''a<b'' = ''a&lt;b'' \<and>
   CHR ''a'' \<notin> {CHR ''&'', CHR ''<'', CHR ''>'', CHR 0x22, CHR 0x27} \<and>
   xml_entity (CHR ''a'') = ''a'' \<and>
   0 < length (m_filament_data (example_dialog\<lparr>m_filament_data := [example_filament]\<rparr>)) \<and>
   embedded_escaped (\<lambda>v. export_document example_wx
     (example_dialog\<lparr>m_filament_data := [example_filament\<lparr>name := v\<rparr>]\<rparr>))\<close>
proof -
  let ?d = "example_dialog\<lparr>m_filament_data := [example_filament]\<rparr>"
  note t = escape_xml_report[of "''a<b''" example_wx ?d]
  have a: "escape_xml ''a<b'' = ''a&lt;b''"
    using t[THEN conjunct1] by (simp add: xml_entity_def)
  have n: "CHR ''a'' \<notin> {CHR ''&'', CHR ''<'', CHR ''>'', CHR 0x22, CHR 0x27}" by simp
  note o = t[THEN conjunct2, THEN conjunct2, THEN conjunct2, THEN conjunct2, THEN conjunct2,
      THEN conjunct2]
  have b: "xml_entity (CHR ''a'') = ''a''"
    using o[THEN conjunct1, rule_format, OF n] .
  have i: "0 < length (m_filament_data ?d)" by simp
  note f = o[THEN conjunct2, THEN conjunct2, THEN conjunct2, THEN conjunct2, THEN conjunct2,
      THEN conjunct2, THEN conjunct2, THEN conjunct2, rule_format, OF i, THEN conjunct1]
  have c: "embedded_escaped (\<lambda>v. export_document example_wx
     (example_dialog\<lparr>m_filament_data := [example_filament\<lparr>name := v\<rparr>]\<rparr>))"
    using f by simp
  from a n b i c show ?thesis by blast
qed

section \<open>The exporter: a stream that does not open\<close>

lemma export_document_complete:
  \<open>\<exists>body. export_document wx d = ''<?xml version="1.0"?>\<newline>'' @ body @ ''</Workbook>\<newline>''\<close>
proof -
  have h: \<open>workbook_head = ''<?xml version="1.0"?>\<newline>'' @ drop 22 workbook_head\<close>
    by (simp add: workbook_head_def)
  have \<open>export_document wx d =
      ''<?xml version="1.0"?>\<newline>'' @ (drop 22 workbook_head @ invoice_sheet wx d @ internal_sheet wx d)
        @ ''</Workbook>\<newline>''\<close>
    unfolding export_document_def by (subst h) simp
  then show ?thesis by blast
qed

text \<open>
  C8 (as amended). When the output stream cannot be opened, \<open>export_to_excel\<close> returns
  with every file as it was and without any message box: nothing is written, and nothing
  tells the caller or the user of the failure (the function returns \<open>void\<close>). When the
  stream opens, the whole document, from the XML declaration to the closing tag of the
  workbook, replaces the file and the success message is shown.
\<close>

theorem export_all_or_nothing:
  \<open>(\<not> stream_is_ok wx path \<longrightarrow> export_to_excel wx files path d = (files, [])) \<and>
   (stream_is_ok wx path \<longrightarrow>
      export_to_excel wx files path d =
        (files(path \<mapsto> export_document wx d), [''Invoice exported successfully.''])) \<and>
   (\<exists>body. export_document wx d =
      ''<?xml version="1.0"?>\<newline>'' @ body @ ''</Workbook>\<newline>'')\<close>
  using export_document_complete[of wx d] by (simp add: export_to_excel_def)

theorem export_all_or_nothing_witness:
  "\<not> stream_is_ok example_wx ''/missing/invoice.xls'' \<and>
   export_to_excel example_wx Map.empty ''/missing/invoice.xls'' example_dialog = (Map.empty, []) \<and>
   stream_is_ok example_wx ''invoice.xls'' \<and>
   export_to_excel example_wx Map.empty ''invoice.xls'' example_dialog =
     ([''invoice.xls'' \<mapsto> export_document example_wx example_dialog],
      [''Invoice exported successfully.''])"
proof -
  have n: "\<not> stream_is_ok example_wx ''/missing/invoice.xls''" by (simp add: example_wx_def)
  have y: "stream_is_ok example_wx ''invoice.xls''" by (simp add: example_wx_def)
  from export_all_or_nothing[of example_wx "''/missing/invoice.xls''" Map.empty example_dialog] n
  have a: "export_to_excel example_wx Map.empty ''/missing/invoice.xls'' example_dialog = (Map.empty, [])"
    by blast
  from export_all_or_nothing[of example_wx "''invoice.xls''" Map.empty example_dialog] y
  have b: "export_to_excel example_wx Map.empty ''invoice.xls'' example_dialog =
     ([''invoice.xls'' \<mapsto> export_document example_wx example_dialog],
      [''Invoice exported successfully.''])"
    by blast
  from n a y b show ?thesis by blast
qed

text \<open>
  The claim as stated asks for a failure reported to the caller. At a path whose stream
  does not open, the call ends like a call that did nothing: no file, no message box, and
  no result.
\<close>

theorem export_failure_silent_counterexample:
  "\<not> stream_is_ok example_wx ''/missing/invoice.xls'' \<and>
   snd (export_to_excel example_wx Map.empty ''/missing/invoice.xls'' example_dialog) = [] \<and>
   fst (export_to_excel example_wx Map.empty ''/missing/invoice.xls'' example_dialog) = Map.empty"
  by (simp add: export_to_excel_def example_wx_def)

section \<open>The job profile store: save and load\<close>

lemma set_vals_other:
  "key \<notin> (\<lambda>k. prefix @ k) ` fst ` set kvs \<Longrightarrow> set_vals prefix kvs config key = config key"
  by (induction kvs arbitrary: config) (auto simp: app_set_def)

lemma set_vals_lookup:
  "distinct (map fst kvs) \<Longrightarrow> (k, v) \<in> set kvs \<Longrightarrow>
   set_vals prefix kvs config (prefix @ k) = Some v"
proof (induction kvs arbitrary: config)
  case Nil
  then show ?case by simp
next
  case (Cons kv kvs)
  obtain k' v' where kv: "kv = (k', v')" by (cases kv)
  show ?case
  proof (cases "(k, v) \<in> set kvs")
    case True
    with Cons kv show ?thesis by simp
  next
    case False
    with Cons.prems kv have eq: "k' = k" "v' = v" by auto
    from Cons.prems(1) kv eq have "k \<notin> fst ` set kvs" by auto
    then have "prefix @ k \<notin> (\<lambda>k. prefix @ k) ` fst ` set kvs" by auto
    from set_vals_other[OF this] kv eq show ?thesis by (simp add: app_set_def)
  qed
qed

lemma distinct_profile_keys: "distinct (map fst (profile_values d))"
  by (simp add: profile_values_def)

lemma registry_key_not_profile_key: "''invoice_profiles'' \<noteq> job_prefix n @ k"
  by (simp add: job_prefix_def)



text \<open>What the store holds under the keys of a profile after a save.\<close>

lemma save_job_profile_stores:
  assumes "profile_name \<noteq> []" and "(k, v) \<in> set (profile_values d)"
  shows "\<exists>config' d1. save_job_profile (Some config) profile_name d = (Some config', d1) \<and>
           app_get config' (job_prefix profile_name @ k) = v"
proof -
  let ?c1 = "set_vals (job_prefix profile_name) (profile_values d) config"
  have l: "?c1 (job_prefix profile_name @ k) = Some v"
    by (rule set_vals_lookup[OF distinct_profile_keys assms(2)])
  have r: "job_prefix profile_name @ k \<noteq> ''invoice_profiles''"
    using registry_key_not_profile_key[of profile_name k] by simp
  show ?thesis
    using assms(1) l r by (simp add: save_job_profile_def Let_def app_set_def app_get_def)
qed



lemma get_dbl_absent:
  "app_get config (prefix @ key) = [] \<Longrightarrow> get_dbl config prefix key def = Inr (Some def)"
  by (simp add: get_dbl_def get_str_def)

lemma get_int_absent: "app_get config (prefix @ key) = [] \<Longrightarrow> get_int config prefix key def = Inr def"
  by (simp add: get_int_def get_str_def)

text \<open>The run of the statements when every number read is a finite one.\<close>

lemma load_run_all:
  assumes "get_int c p ''parts_per_plate'' 1 = Inr i1"
    and "get_int c p ''num_plates'' 1 = Inr i2"
    and "get_dbl c p ''failure_rate'' 5 = Inr (Some x1)"
    and "get_dbl c p ''labor_rate'' 20 = Inr (Some x2)"
    and "get_dbl c p ''prep_time'' 15 = Inr (Some x3)"
    and "get_dbl c p ''setup_time'' 10 = Inr (Some x4)"
    and "get_dbl c p ''finishing_per_part'' 5 = Inr (Some x5)"
    and "get_dbl c p ''finishing_per_plate'' 0 = Inr (Some x6)"
    and "get_dbl c p ''printer_cost'' 300 = Inr (Some x7)"
    and "get_dbl c p ''printer_lifespan'' 15000 = Inr (Some x8)"
    and "get_dbl c p ''maintenance_cost'' (10 / 100) = Inr (Some x9)"
    and "get_dbl c p ''power_watts'' 130 = Inr (Some x10)"
    and "get_dbl c p ''electricity_cost'' (15 / 100) = Inr (Some x11)"
    and "get_dbl c p ''bed_cost'' 30 = Inr (Some x12)"
    and "get_dbl c p ''bed_lifespan'' 5000 = Inr (Some x13)"
    and "get_dbl c p ''nozzle_cost'' 2 = Inr (Some x14)"
    and "get_dbl c p ''nozzle_lifespan_kg'' 25 = Inr (Some x15)"
    and "get_dbl c p ''solvent_cost'' 0 = Inr (Some x16)"
    and "get_dbl c p ''solving_time'' 0 = Inr (Some x17)"
    and "get_dbl c p ''tank_power'' 0 = Inr (Some x18)"
    and "get_dbl c p ''finishing_materials'' 0 = Inr (Some x19)"
    and "get_dbl c p ''markup_percent'' 50 = Inr (Some x20)"
  shows "load_run wx c p load_fields d =
    (None, d\<lparr>m_txt_customer_name := get_str c p ''customer_name'',
              m_txt_customer_email := get_str c p ''customer_email'',
              m_txt_customer_phone := get_str c p ''customer_phone'',
              m_txt_job_name := get_str c p ''job_name'',
              m_txt_job_description := get_str c p ''job_description'',
              m_parts_per_plate := i1, m_num_plates := i2, m_failure_rate := x1,
              m_labor_rate := x2, m_prep_time := x3, m_setup_time := x4,
              m_finishing_per_part := x5, m_finishing_per_plate := x6, m_printer_cost := x7,
              m_printer_lifespan := x8, m_maintenance_cost := x9, m_power_watts := x10,
              m_electricity_cost := x11, m_bed_cost := x12, m_bed_lifespan := x13,
              m_nozzle_cost := x14, m_nozzle_lifespan_kg := x15, m_solvent_cost := x16,
              m_solving_time := x17, m_tank_power := x18, m_finishing_materials := x19,
              m_markup_percent := x20\<rparr>)"
  using assms by (simp add: load_fields_def)

text \<open>
  A run that raises stops at the first statement that raises, with the statements before
  it executed and none after it; and a statement that raises whatever the dialog ends
  every run that holds it.
\<close>

lemma load_run_stops:
  "load_run wx c p fs d = (Some e, d') \<Longrightarrow>
   \<exists>pre f post. fs = pre @ f # post \<and> load_run wx c p pre d = (None, d') \<and>
      load_step wx c p f d' = Inl e"
proof (induction fs arbitrary: d)
  case Nil
  then show ?case by simp
next
  case (Cons g fs)
  show ?case
  proof (cases "load_step wx c p g d")
    case (Inl e0)
    with Cons.prems have "e0 = e" "d' = d" by simp_all
    with Inl have "g # fs = [] @ g # fs \<and> load_run wx c p [] d = (None, d') \<and>
        load_step wx c p g d' = Inl e" by simp
    then show ?thesis by blast
  next
    case (Inr d1)
    with Cons.prems have "load_run wx c p fs d1 = (Some e, d')" by simp
    from Cons.IH[OF this] obtain pre f post where
      fs: "fs = pre @ f # post" and run: "load_run wx c p pre d1 = (None, d')" and
      st: "load_step wx c p f d' = Inl e" by blast
    from fs run st Inr have "g # fs = (g # pre) @ f # post \<and>
        load_run wx c p (g # pre) d = (None, d') \<and> load_step wx c p f d' = Inl e" by simp
    then show ?thesis by blast
  qed
qed

lemma load_run_raises:
  "f \<in> set fs \<Longrightarrow> (\<And>d. \<exists>e. load_step wx c p f d = Inl e) \<Longrightarrow>
   \<exists>e d'. load_run wx c p fs d = (Some e, d')"
proof (induction fs arbitrary: d)
  case Nil
  then show ?case by simp
next
  case (Cons g fs)
  show ?case
  proof (cases "load_step wx c p g d")
    case (Inl e)
    then show ?thesis by simp
  next
    case (Inr d')
    with Cons.prems(2)[of d] have "g \<noteq> f" by auto
    with Cons.prems(1) have "f \<in> set fs" by simp
    from Cons.IH[OF this Cons.prems(2)] Inr show ?thesis by simp
  qed
qed

text \<open>\<open>calculate_costs\<close> assigns the twelve results and nothing else.\<close>

lemma calculate_costs_frame:
  "calculate_costs d = Inr r \<Longrightarrow>
   r = d\<lparr>m_calc_material_cost := m_calc_material_cost r,
         m_calc_labor_cost := m_calc_labor_cost r,
         m_calc_machine_cost := m_calc_machine_cost r,
         m_calc_tooling_cost := m_calc_tooling_cost r,
         m_calc_postprocess_cost := m_calc_postprocess_cost r,
         m_calc_subtotal := m_calc_subtotal r,
         m_calc_failure_adjustment := m_calc_failure_adjustment r,
         m_calc_cost_per_part := m_calc_cost_per_part r,
         m_calc_markup_amount := m_calc_markup_amount r,
         m_calc_final_price := m_calc_final_price r,
         m_calc_total_job_cost := m_calc_total_job_cost r,
         m_calc_print_time_hours := m_calc_print_time_hours r\<rparr>"
  by (auto simp: calculate_costs_def Let_def split: sum.splits)

lemma calculate_costs_controls:
  assumes "calculate_costs d = Inr r"
  shows "job_texts r = job_texts d" and "job_integers r = job_integers d"
    and "job_doubles r = job_doubles d" and "m_stats r = m_stats d"
    and "m_filament_data r = m_filament_data d" and "m_txt_business_name r = m_txt_business_name d"
    and "m_combo_job_profiles r = m_combo_job_profiles d"
  by (subst calculate_costs_frame[OF assms], simp add: job_texts_def job_integers_def job_doubles_def)+

text \<open>
  The last statement of \<open>load_job_profile\<close>: the exception, if any, is the one of the
  print time, and the job parameters stay as the statements before left them.
\<close>

lemma load_finish:
  "\<exists>d2. (case calculate_costs d1 of Inl e \<Rightarrow> (Some e, d1) | Inr d'' \<Rightarrow> (None, d'')) =
           (print_time_error (m_stats d1), d2) \<and>
         job_texts d2 = job_texts d1 \<and> job_integers d2 = job_integers d1 \<and>
         job_doubles d2 = job_doubles d1 \<and> m_stats d2 = m_stats d1"
proof (cases "calculate_costs d1")
  case (Inl e)
  then have "print_time_error (m_stats d1) = Some e" by (simp add: calculate_costs_raises)
  with Inl show ?thesis by simp
next
  case (Inr r)
  then have "print_time_error (m_stats d1) = None" using calculate_costs_returns[of d1] by blast
  with Inr calculate_costs_controls[OF Inr] show ?thesis by simp
qed



text \<open>The load of a profile none of whose data keys is in the store.\<close>

lemma data_keys_list:
  "data_keys = [''customer_name'', ''customer_email'', ''customer_phone'', ''job_name'',
     ''job_description'', ''parts_per_plate'', ''num_plates'', ''failure_rate'',
     ''labor_rate'', ''prep_time'', ''setup_time'', ''finishing_per_part'',
     ''finishing_per_plate'', ''printer_cost'', ''printer_lifespan'', ''maintenance_cost'',
     ''power_watts'', ''electricity_cost'', ''bed_cost'', ''bed_lifespan'', ''nozzle_cost'',
     ''nozzle_lifespan_kg'', ''solvent_cost'', ''solving_time'', ''tank_power'',
     ''finishing_materials'', ''markup_percent'']"
  by (simp add: data_keys_def load_fields_def)

lemma data_keys_saved: "map fst (profile_values d) = data_keys"
  by (simp add: data_keys_list profile_values_def)

lemma load_absent:
  assumes "profile_name \<noteq> []"
    and "\<forall>key \<in> set data_keys. config (job_prefix profile_name @ key) = None"
  shows "load_job_profile wx (Some config) profile_name d =
    (case calculate_costs (d\<lparr>m_txt_customer_name := [], m_txt_customer_email := [], m_txt_customer_phone := [], m_txt_job_name := [], m_txt_job_description := [], m_parts_per_plate := 1, m_num_plates := 1, m_failure_rate := 5, m_labor_rate := 20, m_prep_time := 15, m_setup_time := 10, m_finishing_per_part := 5, m_finishing_per_plate := 0, m_printer_cost := 300, m_printer_lifespan := 15000, m_maintenance_cost := (10 / 100), m_power_watts := 130, m_electricity_cost := (15 / 100), m_bed_cost := 30, m_bed_lifespan := 5000, m_nozzle_cost := 2, m_nozzle_lifespan_kg := 25, m_solvent_cost := 0, m_solving_time := 0, m_tank_power := 0, m_finishing_materials := 0, m_markup_percent := 50\<rparr>) of
       Inl e \<Rightarrow> (Some e, d\<lparr>m_txt_customer_name := [], m_txt_customer_email := [], m_txt_customer_phone := [], m_txt_job_name := [], m_txt_job_description := [], m_parts_per_plate := 1, m_num_plates := 1, m_failure_rate := 5, m_labor_rate := 20, m_prep_time := 15, m_setup_time := 10, m_finishing_per_part := 5, m_finishing_per_plate := 0, m_printer_cost := 300, m_printer_lifespan := 15000, m_maintenance_cost := (10 / 100), m_power_watts := 130, m_electricity_cost := (15 / 100), m_bed_cost := 30, m_bed_lifespan := 5000, m_nozzle_cost := 2, m_nozzle_lifespan_kg := 25, m_solvent_cost := 0, m_solving_time := 0, m_tank_power := 0, m_finishing_materials := 0, m_markup_percent := 50\<rparr>)
     | Inr r \<Rightarrow> (None, r))"
proof -
  let ?p = "job_prefix profile_name"
  have e: "app_get config (?p @ key) = []" if "key \<in> set data_keys" for key
    using assms(2) that by (simp add: app_get_def)
  have s: "get_str config ?p key = []" if "key \<in> set data_keys" for key
    by (simp add: get_str_def e[OF that])
  have i: "get_int config ?p key def = Inr def" if "key \<in> set data_keys" for key def
    by (rule get_int_absent[OF e[OF that]])
  have x: "get_dbl config ?p key def = Inr (Some def)" if "key \<in> set data_keys" for key def
    by (rule get_dbl_absent[OF e[OF that]])
  have t_customer_name: "get_str config ?p ''customer_name'' = []" by (rule s) (simp add: data_keys_list)
  have t_customer_email: "get_str config ?p ''customer_email'' = []" by (rule s) (simp add: data_keys_list)
  have t_customer_phone: "get_str config ?p ''customer_phone'' = []" by (rule s) (simp add: data_keys_list)
  have t_job_name: "get_str config ?p ''job_name'' = []" by (rule s) (simp add: data_keys_list)
  have t_job_description: "get_str config ?p ''job_description'' = []" by (rule s) (simp add: data_keys_list)
  have g1: "get_int config ?p ''parts_per_plate'' 1 = Inr 1" by (rule i) (simp add: data_keys_list)
  have g2: "get_int config ?p ''num_plates'' 1 = Inr 1" by (rule i) (simp add: data_keys_list)
  have g3: "get_dbl config ?p ''failure_rate'' 5 = Inr (Some 5)" by (rule x) (simp add: data_keys_list)
  have g4: "get_dbl config ?p ''labor_rate'' 20 = Inr (Some 20)" by (rule x) (simp add: data_keys_list)
  have g5: "get_dbl config ?p ''prep_time'' 15 = Inr (Some 15)" by (rule x) (simp add: data_keys_list)
  have g6: "get_dbl config ?p ''setup_time'' 10 = Inr (Some 10)" by (rule x) (simp add: data_keys_list)
  have g7: "get_dbl config ?p ''finishing_per_part'' 5 = Inr (Some 5)" by (rule x) (simp add: data_keys_list)
  have g8: "get_dbl config ?p ''finishing_per_plate'' 0 = Inr (Some 0)" by (rule x) (simp add: data_keys_list)
  have g9: "get_dbl config ?p ''printer_cost'' 300 = Inr (Some 300)" by (rule x) (simp add: data_keys_list)
  have g10: "get_dbl config ?p ''printer_lifespan'' 15000 = Inr (Some 15000)" by (rule x) (simp add: data_keys_list)
  have g11: "get_dbl config ?p ''maintenance_cost'' (10 / 100) = Inr (Some (10 / 100))" by (rule x) (simp add: data_keys_list)
  have g12: "get_dbl config ?p ''power_watts'' 130 = Inr (Some 130)" by (rule x) (simp add: data_keys_list)
  have g13: "get_dbl config ?p ''electricity_cost'' (15 / 100) = Inr (Some (15 / 100))" by (rule x) (simp add: data_keys_list)
  have g14: "get_dbl config ?p ''bed_cost'' 30 = Inr (Some 30)" by (rule x) (simp add: data_keys_list)
  have g15: "get_dbl config ?p ''bed_lifespan'' 5000 = Inr (Some 5000)" by (rule x) (simp add: data_keys_list)
  have g16: "get_dbl config ?p ''nozzle_cost'' 2 = Inr (Some 2)" by (rule x) (simp add: data_keys_list)
  have g17: "get_dbl config ?p ''nozzle_lifespan_kg'' 25 = Inr (Some 25)" by (rule x) (simp add: data_keys_list)
  have g18: "get_dbl config ?p ''solvent_cost'' 0 = Inr (Some 0)" by (rule x) (simp add: data_keys_list)
  have g19: "get_dbl config ?p ''solving_time'' 0 = Inr (Some 0)" by (rule x) (simp add: data_keys_list)
  have g20: "get_dbl config ?p ''tank_power'' 0 = Inr (Some 0)" by (rule x) (simp add: data_keys_list)
  have g21: "get_dbl config ?p ''finishing_materials'' 0 = Inr (Some 0)" by (rule x) (simp add: data_keys_list)
  have g22: "get_dbl config ?p ''markup_percent'' 50 = Inr (Some 50)" by (rule x) (simp add: data_keys_list)
  note all = g1 g2 g3 g4 g5 g6 g7 g8 g9 g10 g11 g12 g13 g14 g15 g16 g17 g18 g19 g20 g21 g22
  note run = load_run_all[OF all, of wx d, unfolded t_customer_name t_customer_email t_customer_phone t_job_name t_job_description]
  show ?thesis
    by (simp only: load_job_profile_def option.case assms(1) if_False run prod.case)
qed































section \<open>The job profile store: unknown names and unparsable text\<close>

lemma reset_parameters:
  "job_texts (d\<lparr>m_txt_customer_name := [], m_txt_customer_email := [],
               m_txt_customer_phone := [], m_txt_job_name := [], m_txt_job_description := [],
               m_parts_per_plate := 1, m_num_plates := 1, m_failure_rate := 5,
               m_labor_rate := 20, m_prep_time := 15, m_setup_time := 10,
               m_finishing_per_part := 5, m_finishing_per_plate := 0, m_printer_cost := 300,
               m_printer_lifespan := 15000, m_maintenance_cost := (10 / 100),
               m_power_watts := 130, m_electricity_cost := (15 / 100), m_bed_cost := 30,
               m_bed_lifespan := 5000, m_nozzle_cost := 2, m_nozzle_lifespan_kg := 25,
               m_solvent_cost := 0, m_solving_time := 0, m_tank_power := 0,
               m_finishing_materials := 0, m_markup_percent := 50\<rparr>) = [[], [], [], [], []]"
  "job_integers (d\<lparr>m_txt_customer_name := [], m_txt_customer_email := [],
               m_txt_customer_phone := [], m_txt_job_name := [], m_txt_job_description := [],
               m_parts_per_plate := 1, m_num_plates := 1, m_failure_rate := 5,
               m_labor_rate := 20, m_prep_time := 15, m_setup_time := 10,
               m_finishing_per_part := 5, m_finishing_per_plate := 0, m_printer_cost := 300,
               m_printer_lifespan := 15000, m_maintenance_cost := (10 / 100),
               m_power_watts := 130, m_electricity_cost := (15 / 100), m_bed_cost := 30,
               m_bed_lifespan := 5000, m_nozzle_cost := 2, m_nozzle_lifespan_kg := 25,
               m_solvent_cost := 0, m_solving_time := 0, m_tank_power := 0,
               m_finishing_materials := 0, m_markup_percent := 50\<rparr>) = [1, 1]"
  "job_doubles (d\<lparr>m_txt_customer_name := [], m_txt_customer_email := [],
               m_txt_customer_phone := [], m_txt_job_name := [], m_txt_job_description := [],
               m_parts_per_plate := 1, m_num_plates := 1, m_failure_rate := 5,
               m_labor_rate := 20, m_prep_time := 15, m_setup_time := 10,
               m_finishing_per_part := 5, m_finishing_per_plate := 0, m_printer_cost := 300,
               m_printer_lifespan := 15000, m_maintenance_cost := (10 / 100),
               m_power_watts := 130, m_electricity_cost := (15 / 100), m_bed_cost := 30,
               m_bed_lifespan := 5000, m_nozzle_cost := 2, m_nozzle_lifespan_kg := 25,
               m_solvent_cost := 0, m_solving_time := 0, m_tank_power := 0,
               m_finishing_materials := 0, m_markup_percent := 50\<rparr>) =
     [5, 20, 15, 10, 5, 0, 300, 15000, 10 / 100, 130, 15 / 100, 30, 5000, 2, 25, 0, 0, 0, 0, 50]"
  "m_stats (d\<lparr>m_txt_customer_name := [], m_txt_customer_email := [],
               m_txt_customer_phone := [], m_txt_job_name := [], m_txt_job_description := [],
               m_parts_per_plate := 1, m_num_plates := 1, m_failure_rate := 5,
               m_labor_rate := 20, m_prep_time := 15, m_setup_time := 10,
               m_finishing_per_part := 5, m_finishing_per_plate := 0, m_printer_cost := 300,
               m_printer_lifespan := 15000, m_maintenance_cost := (10 / 100),
               m_power_watts := 130, m_electricity_cost := (15 / 100), m_bed_cost := 30,
               m_bed_lifespan := 5000, m_nozzle_cost := 2, m_nozzle_lifespan_kg := 25,
               m_solvent_cost := 0, m_solving_time := 0, m_tank_power := 0,
               m_finishing_materials := 0, m_markup_percent := 50\<rparr>) = m_stats d"
  by (simp_all add: job_texts_def job_integers_def job_doubles_def)

text \<open>
  C5 (as amended). Loading a name that was never saved is not a no-op: for a non-empty
  name whose data keys are all absent from the store (whatever else the store holds),
  \<open>load_job_profile\<close> empties the five customer and job texts, sets every numeric control
  to its default and recomputes the costs, where only the print time can raise. So the
  job parameters are the same after the call exactly when they were the empty texts and
  the defaults before it. For the empty name and for a null store the call returns at
  once and the dialog is left as it was.
\<close>

theorem load_unknown_profile_resets:
  "(profile_name \<noteq> [] \<and> (\<forall>key \<in> set data_keys. config (job_prefix profile_name @ key) = None) \<longrightarrow>
      load_job_profile wx (Some config) profile_name d =
        (case calculate_costs (d\<lparr>m_txt_customer_name := [], m_txt_customer_email := [],
               m_txt_customer_phone := [], m_txt_job_name := [], m_txt_job_description := [],
               m_parts_per_plate := 1, m_num_plates := 1, m_failure_rate := 5,
               m_labor_rate := 20, m_prep_time := 15, m_setup_time := 10,
               m_finishing_per_part := 5, m_finishing_per_plate := 0, m_printer_cost := 300,
               m_printer_lifespan := 15000, m_maintenance_cost := (10 / 100),
               m_power_watts := 130, m_electricity_cost := (15 / 100), m_bed_cost := 30,
               m_bed_lifespan := 5000, m_nozzle_cost := 2, m_nozzle_lifespan_kg := 25,
               m_solvent_cost := 0, m_solving_time := 0, m_tank_power := 0,
               m_finishing_materials := 0, m_markup_percent := 50\<rparr>) of
           Inl e \<Rightarrow> (Some e, d\<lparr>m_txt_customer_name := [], m_txt_customer_email := [],
               m_txt_customer_phone := [], m_txt_job_name := [], m_txt_job_description := [],
               m_parts_per_plate := 1, m_num_plates := 1, m_failure_rate := 5,
               m_labor_rate := 20, m_prep_time := 15, m_setup_time := 10,
               m_finishing_per_part := 5, m_finishing_per_plate := 0, m_printer_cost := 300,
               m_printer_lifespan := 15000, m_maintenance_cost := (10 / 100),
               m_power_watts := 130, m_electricity_cost := (15 / 100), m_bed_cost := 30,
               m_bed_lifespan := 5000, m_nozzle_cost := 2, m_nozzle_lifespan_kg := 25,
               m_solvent_cost := 0, m_solving_time := 0, m_tank_power := 0,
               m_finishing_materials := 0, m_markup_percent := 50\<rparr>)
         | Inr r \<Rightarrow> (None, r)) \<and>
      (\<exists>d2. load_job_profile wx (Some config) profile_name d = (print_time_error (m_stats d), d2) \<and>
         job_texts d2 = [[], [], [], [], []] \<and> job_integers d2 = [1, 1] \<and>
         job_doubles d2 =
           [5, 20, 15, 10, 5, 0, 300, 15000, 10 / 100, 130, 15 / 100, 30, 5000, 2, 25, 0, 0, 0, 0, 50] \<and>
         ((job_texts d2 = job_texts d \<and> job_integers d2 = job_integers d \<and> job_doubles d2 = job_doubles d) =
          (job_texts d = [[], [], [], [], []] \<and> job_integers d = [1, 1] \<and>
           job_doubles d =
             [5, 20, 15, 10, 5, 0, 300, 15000, 10 / 100, 130, 15 / 100, 30, 5000, 2, 25, 0, 0, 0, 0, 50])))) \<and>
   load_job_profile wx config_ptr [] d = (None, d) \<and>
   load_job_profile wx None profile_name d = (None, d)"
proof -
  let ?reset = "d\<lparr>m_txt_customer_name := [], m_txt_customer_email := [],
               m_txt_customer_phone := [], m_txt_job_name := [], m_txt_job_description := [],
               m_parts_per_plate := 1, m_num_plates := 1, m_failure_rate := 5,
               m_labor_rate := 20, m_prep_time := 15, m_setup_time := 10,
               m_finishing_per_part := 5, m_finishing_per_plate := 0, m_printer_cost := 300,
               m_printer_lifespan := 15000, m_maintenance_cost := (10 / 100),
               m_power_watts := 130, m_electricity_cost := (15 / 100), m_bed_cost := 30,
               m_bed_lifespan := 5000, m_nozzle_cost := 2, m_nozzle_lifespan_kg := 25,
               m_solvent_cost := 0, m_solving_time := 0, m_tank_power := 0,
               m_finishing_materials := 0, m_markup_percent := 50\<rparr>"
  have a: "load_job_profile wx (Some config) profile_name d =
        (case calculate_costs ?reset of Inl e \<Rightarrow> (Some e, ?reset) | Inr r \<Rightarrow> (None, r)) \<and>
      (\<exists>d2. load_job_profile wx (Some config) profile_name d = (print_time_error (m_stats d), d2) \<and>
         job_texts d2 = [[], [], [], [], []] \<and> job_integers d2 = [1, 1] \<and>
         job_doubles d2 =
           [5, 20, 15, 10, 5, 0, 300, 15000, 10 / 100, 130, 15 / 100, 30, 5000, 2, 25, 0, 0, 0, 0, 50] \<and>
         ((job_texts d2 = job_texts d \<and> job_integers d2 = job_integers d \<and> job_doubles d2 = job_doubles d) =
          (job_texts d = [[], [], [], [], []] \<and> job_integers d = [1, 1] \<and>
           job_doubles d =
             [5, 20, 15, 10, 5, 0, 300, 15000, 10 / 100, 130, 15 / 100, 30, 5000, 2, 25, 0, 0, 0, 0, 50])))"
    if "profile_name \<noteq> [] \<and> (\<forall>key \<in> set data_keys. config (job_prefix profile_name @ key) = None)"
  proof -
    from that have n: "profile_name \<noteq> []"
      and k: "\<forall>key \<in> set data_keys. config (job_prefix profile_name @ key) = None" by blast+
    note l = load_absent[OF n k, of wx d]
    from load_finish[of ?reset] obtain d2 where
      f: "(case calculate_costs ?reset of Inl e \<Rightarrow> (Some e, ?reset) | Inr d'' \<Rightarrow> (None, d'')) =
            (print_time_error (m_stats ?reset), d2)" and
      t: "job_texts d2 = job_texts ?reset" and i: "job_integers d2 = job_integers ?reset" and
      x: "job_doubles d2 = job_doubles ?reset" by blast
    have l2: "load_job_profile wx (Some config) profile_name d = (print_time_error (m_stats d), d2)"
      using l f by (simp only: reset_parameters(4))
    have t2: "job_texts d2 = [[], [], [], [], []]" using t by (simp only: reset_parameters(1))
    have i2: "job_integers d2 = [1, 1]" using i by (simp only: reset_parameters(2))
    have x2: "job_doubles d2 =
        [5, 20, 15, 10, 5, 0, 300, 15000, 10 / 100, 130, 15 / 100, 30, 5000, 2, 25, 0, 0, 0, 0, 50]"
      using x by (simp only: reset_parameters(3))
    have same: "(job_texts d2 = job_texts d \<and> job_integers d2 = job_integers d \<and> job_doubles d2 = job_doubles d) =
          (job_texts d = [[], [], [], [], []] \<and> job_integers d = [1, 1] \<and>
           job_doubles d =
             [5, 20, 15, 10, 5, 0, 300, 15000, 10 / 100, 130, 15 / 100, 30, 5000, 2, 25, 0, 0, 0, 0, 50])"
      unfolding t2 i2 x2 by (rule iffI; elim conjE; intro conjI; rule sym; assumption)
    from l l2 t2 i2 x2 same show ?thesis by blast
  qed
  have b: "load_job_profile wx config_ptr [] d = (None, d)"
    by (cases config_ptr) (simp_all add: load_job_profile_def)
  have c: "load_job_profile wx None profile_name d = (None, d)"
    by (simp add: load_job_profile_def)
  show ?thesis by (rule conjI[OF impI[OF a] conjI[OF b c]])
qed

lemma example_other_store_keys:
  "list_all (\<lambda>key. example_other_store (job_prefix ''never saved'' @ key) = None) data_keys"
  by (simp add: data_keys_list example_other_store_def job_prefix_def)

theorem load_unknown_profile_resets_witness:
  "''never saved'' \<noteq> [] \<and>
   example_other_store ''invoice_job_never saved_v2_customer_name'' = Some ''Ann'' \<and>
   list_all (\<lambda>key. example_other_store (job_prefix ''never saved'' @ key) = None) data_keys \<and>
   (\<exists>d2. load_job_profile example_wx (Some example_other_store) ''never saved'' example_dialog =
            (print_time_error (m_stats example_dialog), d2) \<and>
      job_texts d2 = [[], [], [], [], []] \<and> job_integers d2 = [1, 1] \<and>
      job_doubles d2 =
        [5, 20, 15, 10, 5, 0, 300, 15000, 10 / 100, 130, 15 / 100, 30, 5000, 2, 25, 0, 0, 0, 0, 50])"
proof -
  have n: "''never saved'' \<noteq> []" by simp
  have s: "example_other_store ''invoice_job_never saved_v2_customer_name'' = Some ''Ann''"
    by (simp add: example_other_store_def)
  note k = example_other_store_keys
  from k have e: "\<forall>key \<in> set data_keys. example_other_store (job_prefix ''never saved'' @ key) = None"
    by (simp add: list_all_iff)
  from load_unknown_profile_resets[of "''never saved''" example_other_store example_wx example_dialog None,
      THEN conjunct1, rule_format, OF conjI[OF n e], THEN conjunct2]
  have "\<exists>d2. load_job_profile example_wx (Some example_other_store) ''never saved'' example_dialog =
            (print_time_error (m_stats example_dialog), d2) \<and>
      job_texts d2 = [[], [], [], [], []] \<and> job_integers d2 = [1, 1] \<and>
      job_doubles d2 =
        [5, 20, 15, 10, 5, 0, 300, 15000, 10 / 100, 130, 15 / 100, 30, 5000, 2, 25, 0, 0, 0, 0, 50]"
    by blast
  with n s k show ?thesis by blast
qed

text \<open>
  The claim as stated fails on the example dialog and a store that holds nothing of the
  profile: after the load the customer name is empty and not \<open>Tom\<close>, the parts per plate
  are 1 and not 4, the preparation time is 15 and not 10.
\<close>

theorem load_unknown_profile_counterexample:
  "list_all (\<lambda>key. example_other_store (job_prefix ''never saved'' @ key) = None) data_keys \<and>
   (\<exists>d2. load_job_profile example_wx (Some example_other_store) ''never saved'' example_dialog = (None, d2) \<and>
      d2 \<noteq> example_dialog \<and>
      m_txt_customer_name d2 = [] \<and> m_txt_customer_name example_dialog = ''Tom'' \<and>
      m_parts_per_plate d2 = 1 \<and> m_parts_per_plate example_dialog = 4 \<and>
      m_prep_time d2 = 15 \<and> m_prep_time example_dialog = 10)"
proof -
  note k = example_other_store_keys
  from k have e: "\<forall>key \<in> set data_keys. example_other_store (job_prefix ''never saved'' @ key) = None"
    by (simp add: list_all_iff)
  have n: "''never saved'' \<noteq> []" by simp
  note l = load_absent[OF n e, of example_wx example_dialog]
  let ?reset = "example_dialog\<lparr>m_txt_customer_name := [], m_txt_customer_email := [],
               m_txt_customer_phone := [], m_txt_job_name := [], m_txt_job_description := [],
               m_parts_per_plate := 1, m_num_plates := 1, m_failure_rate := 5,
               m_labor_rate := 20, m_prep_time := 15, m_setup_time := 10,
               m_finishing_per_part := 5, m_finishing_per_plate := 0, m_printer_cost := 300,
               m_printer_lifespan := 15000, m_maintenance_cost := (10 / 100),
               m_power_watts := 130, m_electricity_cost := (15 / 100), m_bed_cost := 30,
               m_bed_lifespan := 5000, m_nozzle_cost := 2, m_nozzle_lifespan_kg := 25,
               m_solvent_cost := 0, m_solving_time := 0, m_tank_power := 0,
               m_finishing_materials := 0, m_markup_percent := 50\<rparr>"
  from load_finish[of ?reset] obtain d2 where
    f: "(case calculate_costs ?reset of Inl e \<Rightarrow> (Some e, ?reset) | Inr d'' \<Rightarrow> (None, d'')) =
          (print_time_error (m_stats ?reset), d2)" and
    t: "job_texts d2 = job_texts ?reset" and i: "job_integers d2 = job_integers ?reset" and
    x: "job_doubles d2 = job_doubles ?reset" by blast
  have pt: "print_time_error (m_stats ?reset) = None"
    by (simp add: example_dialog_def print_time_error_def)
  have l2: "load_job_profile example_wx (Some example_other_store) ''never saved'' example_dialog = (None, d2)"
    using l f pt by simp
  have c: "m_txt_customer_name d2 = []" using t by (simp add: job_texts_def)
  have p: "m_parts_per_plate d2 = 1" using i by (simp add: job_integers_def)
  have tm: "m_prep_time d2 = 15" using x by (simp add: job_doubles_def)
  have c0: "m_txt_customer_name example_dialog = ''Tom''" by (simp add: example_dialog_def)
  have p0: "m_parts_per_plate example_dialog = 4" by (simp add: example_dialog_def)
  have t0: "m_prep_time example_dialog = 10" by (simp add: example_dialog_def)
  have ne: "d2 \<noteq> example_dialog" using c c0 by auto
  from k l2 ne c c0 p p0 tm t0 show ?thesis by blast
qed

text \<open>
  C6 (as amended). A stored numeric text that is not empty and that \<open>std::stoi\<close> (for a
  count) or \<open>std::stod\<close> (for an amount) rejects makes \<open>load_job_profile\<close> end with an
  exception that reaches the caller: nothing in the function catches it and no default is
  used. The call ends at the first statement that raises: the statements before it have
  set their controls, no statement after it has run, and the costs are not recomputed.
  The default is used for the empty text only; and the spelling of an infinity or a NaN
  is a text that \<open>std::stod\<close> reads, so that the statement sets its control (to what
  wxWidgets decides) and raises nothing.
\<close>

theorem load_unparsable_raises:
  "(profile_name \<noteq> [] \<and> (key, LoadDbl def setter) \<in> set load_fields \<and>
    get_str config (job_prefix profile_name) key \<noteq> [] \<and>
    stod (get_str config (job_prefix profile_name) key) = Inl e \<longrightarrow>
      (\<exists>e' d' pre f post.
         load_job_profile wx (Some config) profile_name d = (Some e', d') \<and>
         load_fields = pre @ f # post \<and>
         load_run wx config (job_prefix profile_name) pre d = (None, d') \<and>
         load_step wx config (job_prefix profile_name) f d' = Inl e')) \<and>
   (profile_name \<noteq> [] \<and> (key, LoadInt idef isetter) \<in> set load_fields \<and>
    get_str config (job_prefix profile_name) key \<noteq> [] \<and>
    stoi (get_str config (job_prefix profile_name) key) = Inl e \<longrightarrow>
      (\<exists>e' d' pre f post.
         load_job_profile wx (Some config) profile_name d = (Some e', d') \<and>
         load_fields = pre @ f # post \<and>
         load_run wx config (job_prefix profile_name) pre d = (None, d') \<and>
         load_step wx config (job_prefix profile_name) f d' = Inl e')) \<and>
   (get_str config (job_prefix profile_name) key = [] \<longrightarrow>
      get_dbl config (job_prefix profile_name) key def = Inr (Some def) \<and>
      get_int config (job_prefix profile_name) key idef = Inr idef) \<and>
   (stod (get_str config (job_prefix profile_name) key) = Inr None \<longrightarrow>
      load_step wx config (job_prefix profile_name) (key, LoadDbl def setter) d =
        Inr (setter (set_value_non_finite wx key (get_str config (job_prefix profile_name) key) d) d))"
proof -
  let ?p = "job_prefix profile_name"
  have raise: "\<exists>e' d' pre f post.
         load_job_profile wx (Some config) profile_name d = (Some e', d') \<and>
         load_fields = pre @ f # post \<and>
         load_run wx config ?p pre d = (None, d') \<and>
         load_step wx config ?p f d' = Inl e'"
    if n: "profile_name \<noteq> []" and m: "g \<in> set load_fields"
      and s: "\<And>d. \<exists>e. load_step wx config ?p g d = Inl e" for g
  proof -
    from load_run_raises[OF m s, of d] obtain e' d' where
      r: "load_run wx config ?p load_fields d = (Some e', d')" by blast
    from load_run_stops[OF r] obtain pre f post where
      "load_fields = pre @ f # post" "load_run wx config ?p pre d = (None, d')"
      "load_step wx config ?p f d' = Inl e'" by blast
    moreover from n r have "load_job_profile wx (Some config) profile_name d = (Some e', d')"
      by (simp add: load_job_profile_def)
    ultimately show ?thesis by blast
  qed
  have a: "\<exists>e' d' pre f post.
         load_job_profile wx (Some config) profile_name d = (Some e', d') \<and>
         load_fields = pre @ f # post \<and>
         load_run wx config ?p pre d = (None, d') \<and>
         load_step wx config ?p f d' = Inl e'"
    if "profile_name \<noteq> [] \<and> (key, LoadDbl def setter) \<in> set load_fields \<and>
      get_str config ?p key \<noteq> [] \<and> stod (get_str config ?p key) = Inl e"
  proof -
    have "\<exists>e. load_step wx config ?p (key, LoadDbl def setter) d0 = Inl e" for d0
      using that by (simp add: get_dbl_def Let_def)
    from raise[OF _ _ this] that show ?thesis by blast
  qed
  have b: "\<exists>e' d' pre f post.
         load_job_profile wx (Some config) profile_name d = (Some e', d') \<and>
         load_fields = pre @ f # post \<and>
         load_run wx config ?p pre d = (None, d') \<and>
         load_step wx config ?p f d' = Inl e'"
    if "profile_name \<noteq> [] \<and> (key, LoadInt idef isetter) \<in> set load_fields \<and>
      get_str config ?p key \<noteq> [] \<and> stoi (get_str config ?p key) = Inl e"
  proof -
    have "\<exists>e. load_step wx config ?p (key, LoadInt idef isetter) d0 = Inl e" for d0
      using that by (simp add: get_int_def Let_def)
    from raise[OF _ _ this] that show ?thesis by blast
  qed
  have c: "get_dbl config ?p key def = Inr (Some def) \<and> get_int config ?p key idef = Inr idef"
    if "get_str config ?p key = []"
    using that by (simp add: get_dbl_def get_int_def)
  have stod_empty: "stod [] = Inl InvalidArgument"
    by (simp add: stod_def non_finite_text_def read_number_def read_decimal_def)
  have nf: "load_step wx config ?p (key, LoadDbl def setter) d =
        Inr (setter (set_value_non_finite wx key (get_str config ?p key) d) d)"
    if "stod (get_str config ?p key) = Inr None"
  proof -
    from that have "get_str config ?p key \<noteq> []" using stod_empty by auto
    with that show ?thesis by (simp add: get_dbl_def)
  qed
  show ?thesis
    by (rule conjI[OF impI[OF a] conjI[OF impI[OF b] conjI[OF impI[OF c] impI[OF nf]]]])
qed

lemma stoi_abc: "stoi ''abc'' = Inl InvalidArgument"
  by (simp add: stoi_def isspace_def isdigit_def)

lemma stod_five: "stod ''five'' = Inl InvalidArgument"
  by (simp add: stod_def non_finite_text_def read_number_def read_decimal_def isspace_def isdigit_def)

lemma example_store_parts: "get_str example_store (job_prefix ''p'') ''parts_per_plate'' = ''abc''"
  by (simp add: get_str_def app_get_def example_store_def job_prefix_def)

lemma example_store_rate: "get_str example_store (job_prefix ''p'') ''failure_rate'' = ''five''"
  by (simp add: get_str_def app_get_def example_store_def job_prefix_def)

lemma example_store_plates: "get_str example_store (job_prefix ''p'') ''num_plates'' = []"
  by (simp add: get_str_def app_get_def example_store_def job_prefix_def)

theorem load_unparsable_raises_witness:
  "''p'' \<noteq> [] \<and>
   (''parts_per_plate'', LoadInt 1 (\<lambda>v d. d\<lparr>m_parts_per_plate := v\<rparr>)) \<in> set load_fields \<and>
   get_str example_store (job_prefix ''p'') ''parts_per_plate'' = ''abc'' \<and>
   stoi ''abc'' = Inl InvalidArgument \<and>
   (''failure_rate'', LoadDbl 5 (\<lambda>v d. d\<lparr>m_failure_rate := v\<rparr>)) \<in> set load_fields \<and>
   get_str example_store (job_prefix ''p'') ''failure_rate'' = ''five'' \<and>
   stod ''five'' = Inl InvalidArgument \<and>
   (\<exists>e' d' pre f post.
      load_job_profile example_wx (Some example_store) ''p'' example_dialog = (Some e', d') \<and>
      load_fields = pre @ f # post \<and>
      load_run example_wx example_store (job_prefix ''p'') pre example_dialog = (None, d') \<and>
      load_step example_wx example_store (job_prefix ''p'') f d' = Inl e') \<and>
   get_str example_store (job_prefix ''p'') ''num_plates'' = [] \<and>
   get_int example_store (job_prefix ''p'') ''num_plates'' 1 = Inr 1 \<and>
   get_dbl example_store (job_prefix ''p'') ''num_plates'' 5 = Inr (Some 5)"
proof -
  have n: "''p'' \<noteq> []" by simp
  have m: "(''parts_per_plate'', LoadInt 1 (\<lambda>v d. d\<lparr>m_parts_per_plate := v\<rparr>)) \<in> set load_fields"
    by (simp add: load_fields_def)
  have g: "get_str example_store (job_prefix ''p'') ''parts_per_plate'' \<noteq> []"
    by (simp add: example_store_parts)
  have s: "stoi (get_str example_store (job_prefix ''p'') ''parts_per_plate'') = Inl InvalidArgument"
    by (simp add: example_store_parts stoi_abc)
  have m': "(''failure_rate'', LoadDbl 5 (\<lambda>v d. d\<lparr>m_failure_rate := v\<rparr>)) \<in> set load_fields"
    by (simp add: load_fields_def)
  have g': "get_str example_store (job_prefix ''p'') ''failure_rate'' \<noteq> []"
    by (simp add: example_store_rate)
  have s': "stod (get_str example_store (job_prefix ''p'') ''failure_rate'') = Inl InvalidArgument"
    by (simp add: example_store_rate stod_five)
  note t = load_unparsable_raises[where profile_name = "''p''" and key = "''parts_per_plate''"
      and config = example_store and e = InvalidArgument and d = example_dialog and idef = 1
      and isetter = "\<lambda>v d. d\<lparr>m_parts_per_plate := v\<rparr>" and wx = example_wx]
  note u = load_unparsable_raises[where profile_name = "''p''" and key = "''failure_rate''"
      and def = 5 and setter = "\<lambda>v d. d\<lparr>m_failure_rate := v\<rparr>"
      and config = example_store and e = InvalidArgument and d = example_dialog and wx = example_wx]
  note v = load_unparsable_raises[where profile_name = "''p''" and key = "''num_plates''"
      and def = 5 and config = example_store and idef = 1]
  from t[THEN conjunct2, THEN conjunct1, rule_format, OF conjI[OF n conjI[OF m conjI[OF g s]]]]
  have r: "\<exists>e' d' pre f post.
      load_job_profile example_wx (Some example_store) ''p'' example_dialog = (Some e', d') \<and>
      load_fields = pre @ f # post \<and>
      load_run example_wx example_store (job_prefix ''p'') pre example_dialog = (None, d') \<and>
      load_step example_wx example_store (job_prefix ''p'') f d' = Inl e'" .
  from u[THEN conjunct1, rule_format, OF conjI[OF n conjI[OF m' conjI[OF g' s']]]]
  have r': "\<exists>e' d' pre f post.
      load_job_profile example_wx (Some example_store) ''p'' example_dialog = (Some e', d') \<and>
      load_fields = pre @ f # post \<and>
      load_run example_wx example_store (job_prefix ''p'') pre example_dialog = (None, d') \<and>
      load_step example_wx example_store (job_prefix ''p'') f d' = Inl e'" .
  from v[THEN conjunct2, THEN conjunct2, THEN conjunct1, rule_format, OF example_store_plates]
  have e: "get_dbl example_store (job_prefix ''p'') ''num_plates'' 5 = Inr (Some 5) \<and>
           get_int example_store (job_prefix ''p'') ''num_plates'' 1 = Inr 1" .
  from n m example_store_parts stoi_abc m' example_store_rate stod_five r' example_store_plates e
  show ?thesis by blast
qed

text \<open>
  The claim as stated fails for the stored text \<open>abc\<close> under \<open>parts_per_plate\<close>: the load
  ends with \<open>std::invalid_argument\<close>, after the five texts were set and before any number.
\<close>

theorem load_unparsable_counterexample:
  "get_str example_store (job_prefix ''p'') ''parts_per_plate'' = ''abc'' \<and>
   load_job_profile example_wx (Some example_store) ''p'' example_dialog =
     (Some InvalidArgument,
      example_dialog\<lparr>m_txt_customer_name := [], m_txt_customer_email := [],
        m_txt_customer_phone := [], m_txt_job_name := [], m_txt_job_description := []\<rparr>)"
proof -
  have o: "get_str example_store (job_prefix ''p'') k = []"
    if "k \<noteq> ''parts_per_plate''" "k \<noteq> ''failure_rate''" for k
    using that by (simp add: get_str_def app_get_def example_store_def job_prefix_def)
  have i: "get_int example_store (job_prefix ''p'') ''parts_per_plate'' 1 = Inl InvalidArgument"
    by (simp add: get_int_def example_store_parts stoi_abc)
  have "load_run example_wx example_store (job_prefix ''p'') load_fields example_dialog =
     (Some InvalidArgument,
      example_dialog\<lparr>m_txt_customer_name := [], m_txt_customer_email := [],
        m_txt_customer_phone := [], m_txt_job_name := [], m_txt_job_description := []\<rparr>)"
    by (simp add: load_fields_def o i)
  then show ?thesis by (simp add: load_job_profile_def example_store_parts)
qed


section \<open>The job profile store: the registry of names\<close>

lemma join_profiles_concat: "join_profiles ps = concat (map (\<lambda>p. p @ '';'') ps)"
proof -
  have "foldl (\<lambda>new_list p. new_list @ p @ '';'') a ps = a @ concat (map (\<lambda>p. p @ '';'') ps)" for a
    by (induction ps arbitrary: a) simp_all
  then show ?thesis by (simp add: join_profiles_def)
qed

lemma getline_loop_item:
  "CHR '';'' \<notin> set p \<Longrightarrow> getline_loop item (p @ CHR '';'' # rest) = (item @ p) # getline_loop [] rest"
  by (induction p arbitrary: item) auto

lemma getline_items_join:
  "\<forall>p \<in> set ps. CHR '';'' \<notin> set p \<Longrightarrow> getline_items (join_profiles ps) = ps"
proof (induction ps)
  case Nil
  then show ?case by (simp add: getline_items_def join_profiles_concat)
next
  case (Cons p ps)
  then have "getline_loop [] (p @ CHR '';'' # join_profiles ps) = p # getline_loop [] (join_profiles ps)"
    using getline_loop_item[of p "[]" "join_profiles ps"] by simp
  with Cons show ?case by (simp add: getline_items_def join_profiles_concat)
qed

lemma set_vals_registry:
  "app_get (set_vals (job_prefix n) kvs config) ''invoice_profiles'' = app_get config ''invoice_profiles''"
proof -
  have "''invoice_profiles'' \<notin> (\<lambda>k. job_prefix n @ k) ` fst ` set kvs"
    using registry_key_not_profile_key[of n] by auto
  from set_vals_other[OF this] show ?thesis by (simp add: app_get_def)
qed

lemma app_get_set: "app_get (app_set c k v) k' = (if k' = k then v else app_get c k')"
  by (simp add: app_get_def app_set_def)

lemma save_registry:
  assumes "n \<noteq> []"
  shows "\<exists>c' d'. save_job_profile (Some c) n d = (Some c', d') \<and>
     app_get c' ''invoice_profiles'' =
       (if n \<in> set (getline_items (app_get c ''invoice_profiles''))
        then app_get c ''invoice_profiles''
        else join_profiles (getline_items (app_get c ''invoice_profiles'') @ [n])) \<and>
     m_combo_job_profiles d' = registry_names c'"
  using assms
  by (simp add: save_job_profile_def Let_def set_vals_registry refresh_job_profiles_combo_def
      registry_names_def app_get_set)

lemma delete_registry:
  assumes "n \<noteq> []"
  shows "\<exists>c' d'. delete_job_profile (Some c) n d = (Some c', d') \<and>
     app_get c' ''invoice_profiles'' =
       join_profiles (filter (\<lambda>item. item \<noteq> n) (getline_items (app_get c ''invoice_profiles''))) \<and>
     m_combo_job_profiles d' = registry_names c'"
  using assms
  by (simp add: delete_job_profile_def Let_def refresh_job_profiles_combo_def
      registry_names_def app_get_set)

lemma registry_ok_names: "registry_ok c ns \<Longrightarrow> registry_names c = ns \<and> getline_items (app_get c ''invoice_profiles'') = ns"
proof -
  assume ok: "registry_ok c ns"
  then have p: "\<forall>p \<in> set ns. CHR '';'' \<notin> set p" and e: "\<forall>p \<in> set ns. p \<noteq> []"
    by (auto simp: registry_ok_def list_all_iff plain_name_def)
  from ok getline_items_join[OF p] have g: "getline_items (app_get c ''invoice_profiles'') = ns"
    by (simp add: registry_ok_def)
  from e have "filter (\<lambda>item. item \<noteq> []) ns = ns" by (simp add: filter_id_conv)
  with g show ?thesis by (simp add: registry_names_def)
qed

lemma save_keeps_registry_ok:
  assumes "registry_ok c ns" and "plain_name n"
  shows "\<exists>c' d'. save_job_profile (Some c) n d = (Some c', d') \<and>
           registry_ok c' (if n \<in> set ns then ns else ns @ [n]) \<and>
           (n \<in> set ns \<longrightarrow> app_get c' ''invoice_profiles'' = app_get c ''invoice_profiles'') \<and>
           m_combo_job_profiles d' = (if n \<in> set ns then ns else ns @ [n])"
proof -
  from assms(2) have n: "n \<noteq> []" by (simp add: plain_name_def)
  from registry_ok_names[OF assms(1)] have g: "getline_items (app_get c ''invoice_profiles'') = ns" by simp
  from save_registry[OF n, of c d] obtain c' d' where
    s: "save_job_profile (Some c) n d = (Some c', d')" and
    r: "app_get c' ''invoice_profiles'' =
       (if n \<in> set ns then app_get c ''invoice_profiles'' else join_profiles (ns @ [n]))" and
    m: "m_combo_job_profiles d' = registry_names c'"
    unfolding g by blast
  have ok: "registry_ok c' (if n \<in> set ns then ns else ns @ [n])"
    using assms r by (auto simp: registry_ok_def)
  from registry_ok_names[OF ok] m have "m_combo_job_profiles d' = (if n \<in> set ns then ns else ns @ [n])"
    by simp
  with s ok r show ?thesis by auto
qed

lemma delete_keeps_registry_ok:
  assumes "registry_ok c ns" and "plain_name n"
  shows "\<exists>c' d'. delete_job_profile (Some c) n d = (Some c', d') \<and>
           registry_ok c' (filter (\<lambda>item. item \<noteq> n) ns) \<and>
           m_combo_job_profiles d' = filter (\<lambda>item. item \<noteq> n) ns"
proof -
  from assms(2) have n: "n \<noteq> []" by (simp add: plain_name_def)
  from registry_ok_names[OF assms(1)] have g: "getline_items (app_get c ''invoice_profiles'') = ns" by simp
  from delete_registry[OF n, of c d] obtain c' d' where
    s: "delete_job_profile (Some c) n d = (Some c', d')" and
    r: "app_get c' ''invoice_profiles'' = join_profiles (filter (\<lambda>item. item \<noteq> n) ns)" and
    m: "m_combo_job_profiles d' = registry_names c'"
    unfolding g by blast
  have ok: "registry_ok c' (filter (\<lambda>item. item \<noteq> n) ns)"
    using assms r by (auto simp: registry_ok_def list_all_iff)
  from registry_ok_names[OF ok] m s ok show ?thesis by auto
qed

lemma session_keeps_registry_ok:
  assumes "registry_ok c ns" and "list_all (\<lambda>op. plain_name (name_of op)) ops"
  shows "\<exists>c' ns' d'. profile_session ops (Some c, d) = (Some c', d') \<and> registry_ok c' ns'"
  using assms
proof (induction ops arbitrary: c ns d)
  case Nil
  then show ?case by (auto simp: profile_session_def)
next
  case (Cons op ops)
  from Cons.prems(2) have n: "plain_name (name_of op)" and r: "list_all (\<lambda>op. plain_name (name_of op)) ops"
    by simp_all
  have "\<exists>c1 ns1 d1. profile_step (Some c, d) op = (Some c1, d1) \<and> registry_ok c1 ns1"
  proof (cases op)
    case (SaveProfile x)
    with save_keeps_registry_ok[OF Cons.prems(1), of x d] n show ?thesis by auto
  next
    case (DeleteProfile x)
    with delete_keeps_registry_ok[OF Cons.prems(1), of x d] n show ?thesis by auto
  qed
  then obtain c1 ns1 d1 where s: "profile_step (Some c, d) op = (Some c1, d1)" and ok: "registry_ok c1 ns1"
    by blast
  from Cons.IH[OF ok r, of d1] s show ?case by (simp add: profile_session_def)
qed

lemma session_registry_distinct:
  assumes "app_get c ''invoice_profiles'' = []"
    and "list_all (\<lambda>op. plain_name (name_of op)) ops"
  shows "\<exists>c' d'. profile_session ops (Some c, d) = (Some c', d') \<and> distinct (registry_names c')"
proof -
  from assms(1) have "registry_ok c []"
    by (simp add: registry_ok_def join_profiles_def)
  from session_keeps_registry_ok[OF this assms(2), of d] obtain c' ns' d' where
    s: "profile_session ops (Some c, d) = (Some c', d')" and ok: "registry_ok c' ns'"
    by blast
  from registry_ok_names[OF ok] ok have "distinct (registry_names c')"
    by (simp add: registry_ok_def)
  with s show ?thesis by blast
qed

text \<open>
  C4. With plain names the registry never holds a name twice: a session of saves and
  deletes on a well-formed registry ends in a well-formed one
  (\<open>session_keeps_registry_ok\<close>, and \<open>session_registry_distinct\<close> from the empty
  registry), saving a name that is present leaves the registry text
  as it is, deleting removes the name and saving it again appends it
  (\<open>save_keeps_registry_ok\<close>, \<open>delete_keeps_registry_ok\<close>). A name that holds the
  delimiter escapes the check for a present name, because the registry text splits it:
  on an empty store, saving \<open>a;b\<close> twice leaves the registry \<open>a;b;a;b;\<close>, and the list
  of profiles is \<open>a\<close>, \<open>b\<close>, \<open>a\<close>, \<open>b\<close>.
\<close>

theorem registry_duplicates_with_delimiter:
  "\<exists>c d. profile_session [SaveProfile ''a;b'', SaveProfile ''a;b''] (Some Map.empty, example_dialog) = (Some c, d) \<and>
     app_get c ''invoice_profiles'' = ''a;b;a;b;'' \<and>
     m_combo_job_profiles d = [''a'', ''b'', ''a'', ''b'']"
proof -
  have n: "''a;b'' \<noteq> []" by simp
  from save_registry[OF n, of Map.empty example_dialog] obtain c1 d1 where
    s1: "save_job_profile (Some Map.empty) ''a;b'' example_dialog = (Some c1, d1)" and
    r1: "app_get c1 ''invoice_profiles'' = ''a;b;''"
    by (auto simp: app_get_def getline_items_def join_profiles_def)
  from save_registry[OF n, of c1 d1] obtain c2 d2 where
    s2: "save_job_profile (Some c1) ''a;b'' d1 = (Some c2, d2)" and
    r2: "app_get c2 ''invoice_profiles'' = ''a;b;a;b;''" and
    m2: "m_combo_job_profiles d2 = registry_names c2"
    unfolding r1 by (auto simp: getline_items_def join_profiles_def)
  have "registry_names c2 = [''a'', ''b'', ''a'', ''b'']"
    by (simp add: registry_names_def r2 getline_items_def)
  with s1 s2 r2 m2 show ?thesis by (simp add: profile_session_def)
qed

end
